theory Spec2Isabelle
  imports Main "HOL-Library.Word" "HOL-Library.AList"
begin

section \<open>Data model of master/flash_group.go\<close>

text \<open>
  The master keeps flash nodes and flash groups as heap objects that are shared by
  pointer: the node registry and every group's member map hold \<^verbatim>\<open>*FlashNode\<close>, the group
  registry and the callers hold \<^verbatim>\<open>*FlashGroup\<close>.  A pointer is a natural number and the two
  heaps are total functions (a Go pointer that was obtained from a lookup always refers
  to an object).
\<close>

type_synonym ptr = nat

type_synonym bytes = "8 word list"

datatype FlashGroupStatus = FlashGroupStatus_Inactive | FlashGroupStatus_Active

record flashGroupValue =
  ID :: "64 word"
  Slots :: "32 word list"
  Status :: FlashGroupStatus

text \<open>
  \<^verbatim>\<open>FlashGroup\<close> embeds \<^verbatim>\<open>flashGroupValue\<close>.  The member map \<^verbatim>\<open>map[string]*FlashNode\<close> is an
  association list; its order stands for the order in which the Go runtime happens to
  enumerate the map (which the language leaves open), so a statement about every
  association list covers every enumeration order.  The lock is not modelled: the
  embedding is sequential.
\<close>

record FlashGroup = flashGroupValue +
  flashNodes :: "(string \<times> ptr) list"

text \<open>
  \<^verbatim>\<open>FlashNode\<close> is declared outside this file; these are the fields this file reads or
  writes.  \<^verbatim>\<open>ReportTime\<close> and the clock are integers (nanoseconds).
\<close>

record FlashNode =
  Addr :: string
  ZoneName :: string
  ReportTime :: int
  IsActive :: bool
  FlashGroupID :: "64 word"

text \<open>
  \<^verbatim>\<open>proto.FlashGroupAdminView\<close> has the fields ID, Slots and Status of the group value,
  followed by the members grouped by zone and their number.  An entry of
  \<^verbatim>\<open>ZoneFlashNodes\<close> stands for \<^verbatim>\<open>getFlashNodeViewInfo()\<close> of the node, a projection that
  is declared elsewhere; the node's state at the time of the view is kept instead.
\<close>

record FlashGroupAdminView = flashGroupValue +
  ZoneFlashNodes :: "string \<Rightarrow> FlashNode list"
  FlashNodeCount :: nat

text \<open>The raft command that \<^verbatim>\<open>syncPutFlashGroupInfo\<close> builds: operation, key and value.
  The key \<^verbatim>\<open>flashGroupPrefix + FormatUint(ID)\<close> and the JSON value are kept structured.\<close>

datatype raftOp =
  opSyncAddFlashGroup | opSyncDeleteFlashGroup | opSyncUpdateFlashGroup | opSyncUpdateFlashNode

datatype raftKey = flashGroupPrefix "64 word" | flashNodePrefix string

datatype raftValue = GroupV flashGroupValue | NodeV FlashNode

record RaftCmd =
  Op :: raftOp
  K :: raftKey
  V :: raftValue

text \<open>
  Errors.  The source builds them with \<^verbatim>\<open>fmt.Errorf\<close>; one constructor per format string
  of this file, carrying the formatted arguments:
  \<^item> \<open>ErrCanNotAdd\<close>: "flashNode[%v] FlashGroupID[%v] can not add to flash group:%v";
  \<^item> \<open>ErrInactive\<close>: "flashNode[%v] is inactive lastReportTime:%v";
  \<^item> \<open>ErrNotEqualTarget\<close>: "flashNode[%v] FlashGroupID[%v] not equal to target flash group:%v";
  \<^item> \<open>ErrSuccessHost\<close>: "successHost:%v, newHosts:%v err:%v" (and the same with
    flashNodeHosts);
  \<^item> \<open>ErrLessThanExpect\<close>: "flashNodeHostsCount:%v less than expectCount:%v,flashNodeHosts:%v";
  \<^item> \<open>ErrCacheEmpty\<close>: "flash group response cache is empty".
  The other constructors are errors returned by code outside this file: a failed raft
  submission, a lookup that finds nothing, the removal of a group that still has members,
  and anything else (\<open>ErrExternal\<close>).
\<close>

datatype error =
    ErrCanNotAdd string "64 word" "64 word"
  | ErrInactive string int
  | ErrNotEqualTarget string "64 word" "64 word"
  | ErrSuccessHost "string list" "string list" error
  | ErrLessThanExpect nat int "string list"
  | ErrCacheEmpty
  | ErrSubmit
  | ErrFlashNodeNotFound string
  | ErrFlashGroupNotFound "64 word"
  | ErrFlashGroupNotEmpty "64 word"
  | ErrExternal string

datatype 'a reply = ErrReply error | OkReply 'a

text \<open>
  The cluster state this file works on.  \<open>nodeHeap\<close> and \<open>groupHeap\<close> are the objects,
  \<open>flashNodeMap\<close> and \<open>flashGroupMap\<close> the registries of the topology, \<open>raftLog\<close> the
  commands the consensus engine has committed.  \<open>clientOff\<close>, \<open>clientEmpty\<close> and
  \<open>clientCache\<close> are the byte slices of the topology that serve the client query.
  Three counters record calls that leave no other trace: \<open>submitted\<close> counts the calls of
  \<^verbatim>\<open>c.submit\<close>, \<open>clockReads\<close> the readings of the wall clock, \<open>rebuilds\<close> the calls of
  \<^verbatim>\<open>updateClientCache\<close>.
\<close>

record Cluster =
  nodeHeap :: "ptr \<Rightarrow> FlashNode"
  groupHeap :: "ptr \<Rightarrow> FlashGroup"
  flashNodeMap :: "string \<rightharpoonup> ptr"
  flashGroupMap :: "64 word \<rightharpoonup> ptr"
  raftLog :: "RaftCmd list"
  submitted :: nat
  clockReads :: nat
  clientOff :: bytes
  clientEmpty :: bytes
  clientCache :: bytes
  rebuilds :: nat

text \<open>
  What this file uses and does not declare is a parameter of the model:
  the constants \<^verbatim>\<open>unusedFlashNodeFlashGroupID\<close>, \<^verbatim>\<open>_defaultNodeTimeoutDuration\<close> and
  \<^verbatim>\<open>defaultFlashGroupSlotsCount\<close>; the outcome of the consensus engine (\<open>raftAccepts n\<close>:
  the \<open>n\<close>-th submission commits); the wall clock (\<open>clock n\<close>: its \<open>n\<close>-th reading);
  the serialisation that \<^verbatim>\<open>updateClientCache\<close> stores (\<open>render\<close>); the zone lookup followed
  by \<^verbatim>\<open>selectFlashNodes\<close> (\<open>zoneSelect zoneName count excludeHosts\<close>, which reads the state
  and returns the selected hosts or an error); the topology's \<^verbatim>\<open>removeFlashGroup\<close>; and
  \<^verbatim>\<open>FlashNode.isActiveAndEnable\<close>.  The slot maximum is a count, hence a natural number.
\<close>

record env =
  unusedFlashNodeFlashGroupID :: "64 word"
  defaultNodeTimeoutDuration :: int
  defaultFlashGroupSlotsCount :: nat
  raftAccepts :: "nat \<Rightarrow> bool"
  clock :: "nat \<Rightarrow> int"
  render :: "Cluster \<Rightarrow> bytes"
  zoneSelect :: "string \<Rightarrow> int \<Rightarrow> string list \<Rightarrow> Cluster \<Rightarrow> error + string list"
  topoRemoveFlashGroup :: "ptr \<Rightarrow> Cluster \<Rightarrow> error option \<times> Cluster"
  isActiveAndEnable :: "FlashNode \<Rightarrow> bool"

section \<open>Collaborators outside this file\<close>

text \<open>A write through a \<^verbatim>\<open>*FlashNode\<close> or a \<^verbatim>\<open>*FlashGroup\<close>.\<close>

definition setNode :: "ptr \<Rightarrow> (FlashNode \<Rightarrow> FlashNode) \<Rightarrow> Cluster \<Rightarrow> Cluster" where
  "setNode p f c = c\<lparr>nodeHeap := (nodeHeap c)(p := f (nodeHeap c p))\<rparr>"

definition setGroup :: "ptr \<Rightarrow> (FlashGroup \<Rightarrow> FlashGroup) \<Rightarrow> Cluster \<Rightarrow> Cluster" where
  "setGroup g f c = c\<lparr>groupHeap := (groupHeap c)(g := f (groupHeap c g))\<rparr>"

text \<open>
  Modelled from the spec: \<^verbatim>\<open>c.submit\<close> is not in this file.  The Consensus Sink "accepts a
  durable key/operation/value record and returns success or failure"; a committed
  command is appended to the log, a rejected one leaves the log as it was.
\<close>

definition submit :: "env \<Rightarrow> RaftCmd \<Rightarrow> Cluster \<Rightarrow> error option \<times> Cluster" where
  "submit e cmd c =
     (if raftAccepts e (submitted c)
      then (None, c\<lparr>raftLog := raftLog c @ [cmd], submitted := Suc (submitted c)\<rparr>)
      else (Some ErrSubmit, c\<lparr>submitted := Suc (submitted c)\<rparr>))"

text \<open>
  Modelled from the spec: \<^verbatim>\<open>syncUpdateFlashNode\<close> is not in this file.  It submits the
  "node-assignment record = full node state including the assignment field", keyed by a
  stable prefix plus the node's identity (its address).
\<close>

definition syncUpdateFlashNode :: "env \<Rightarrow> ptr \<Rightarrow> Cluster \<Rightarrow> error option \<times> Cluster" where
  "syncUpdateFlashNode e p c =
     submit e \<lparr>Op = opSyncUpdateFlashNode, K = flashNodePrefix (Addr (nodeHeap c p)),
               V = NodeV (nodeHeap c p)\<rparr> c"

text \<open>
  Modelled from the spec: \<^verbatim>\<open>peekFlashNode\<close> and the topology's \<^verbatim>\<open>getFlashGroup\<close> are not in
  this file.  "lookup(addr) -> Node | NotFoundError"; "getGroup(id): fails with
  NotFoundError if absent".
\<close>

definition peekFlashNode :: "string \<Rightarrow> Cluster \<Rightarrow> error + ptr" where
  "peekFlashNode addr c =
     (case flashNodeMap c addr of None \<Rightarrow> Inl (ErrFlashNodeNotFound addr) | Some p \<Rightarrow> Inr p)"

definition getFlashGroup :: "64 word \<Rightarrow> Cluster \<Rightarrow> error + ptr" where
  "getFlashGroup gid c =
     (case flashGroupMap c gid of None \<Rightarrow> Inl (ErrFlashGroupNotFound gid) | Some g \<Rightarrow> Inr g)"

text \<open>
  \<^verbatim>\<open>time.Since(t)\<close>: one reading of the wall clock, minus \<open>t\<close>.  Times are unbounded
  integers; Go saturates a \<^verbatim>\<open>Duration\<close> at the ends of its range, which does not change
  the comparison with a timeout below the largest \<^verbatim>\<open>Duration\<close>.
\<close>

definition timeSince :: "env \<Rightarrow> int \<Rightarrow> Cluster \<Rightarrow> int \<times> Cluster" where
  "timeSince e t c = (clock e (clockReads c) - t, c\<lparr>clockReads := Suc (clockReads c)\<rparr>)"

text \<open>
  Modelled from the spec: \<^verbatim>\<open>updateClientCache\<close> is not in this file.  It "recomputes and
  atomically swaps the single serialized snapshot consumed by client-facing queries".
\<close>

definition updateClientCache :: "env \<Rightarrow> Cluster \<Rightarrow> Cluster" where
  "updateClientCache e c = c\<lparr>clientCache := render e c, rebuilds := Suc (rebuilds c)\<rparr>"

section \<open>FlashGroup methods\<close>

definition putFlashNode :: "ptr \<Rightarrow> ptr \<Rightarrow> Cluster \<Rightarrow> Cluster" where
  "putFlashNode g p c =
     setGroup g (\<lambda>fg. fg\<lparr>flashNodes := AList.update (Addr (nodeHeap c p)) p (flashNodes fg)\<rparr>) c"

definition removeFlashNode :: "ptr \<Rightarrow> string \<Rightarrow> Cluster \<Rightarrow> Cluster" where
  "removeFlashNode g addr c =
     setGroup g (\<lambda>fg. fg\<lparr>flashNodes := AList.delete addr (flashNodes fg)\<rparr>) c"

definition getTargetZoneFlashNodeHosts :: "ptr \<Rightarrow> string \<Rightarrow> Cluster \<Rightarrow> string list" where
  "getTargetZoneFlashNodeHosts g targetZone c =
     map (\<lambda>(host, p). Addr (nodeHeap c p))
       (filter (\<lambda>(host, p). ZoneName (nodeHeap c p) = targetZone) (flashNodes (groupHeap c g)))"

definition getFlashNodeHosts :: "env \<Rightarrow> ptr \<Rightarrow> bool \<Rightarrow> Cluster \<Rightarrow> string list" where
  "getFlashNodeHosts e g checkStatus c =
     map fst
       (filter (\<lambda>(host, p). \<not> (checkStatus \<and> \<not> isActiveAndEnable e (nodeHeap c p)))
          (flashNodes (groupHeap c g)))"

definition getFlashNodesCount :: "ptr \<Rightarrow> Cluster \<Rightarrow> nat" where
  "getFlashNodesCount g c = length (flashNodes (groupHeap c g))"

definition GetAdminView :: "ptr \<Rightarrow> Cluster \<Rightarrow> FlashGroupAdminView" where
  "GetAdminView g c =
     (let fg = groupHeap c g in
      \<lparr>ID = ID fg, Slots = Slots fg, Status = Status fg,
       ZoneFlashNodes = (\<lambda>zone.
          filter (\<lambda>n. ZoneName n = zone) (map (\<lambda>(host, p). nodeHeap c p) (flashNodes fg))),
       FlashNodeCount = length (flashNodes fg)\<rparr>)"

text \<open>\<^verbatim>\<open>json.Marshal\<close> of a \<^verbatim>\<open>flashGroupValue\<close> (two integers and a slice of integers) has
  no failing input, so the branch that returns its error is not a case of the model.\<close>

definition syncPutFlashGroupInfo :: "env \<Rightarrow> raftOp \<Rightarrow> ptr \<Rightarrow> Cluster \<Rightarrow> error option \<times> Cluster" where
  "syncPutFlashGroupInfo e opType g c =
     (let fg = groupHeap c g in
      submit e \<lparr>Op = opType, K = flashGroupPrefix (ID fg),
                V = GroupV \<lparr>ID = ID fg, Slots = Slots fg, Status = Status fg\<rparr>\<rparr> c)"

definition syncUpdateFlashGroup :: "env \<Rightarrow> ptr \<Rightarrow> Cluster \<Rightarrow> error option \<times> Cluster" where
  "syncUpdateFlashGroup e g c = syncPutFlashGroupInfo e opSyncUpdateFlashGroup g c"

definition syncDeleteFlashGroup :: "env \<Rightarrow> ptr \<Rightarrow> Cluster \<Rightarrow> error option \<times> Cluster" where
  "syncDeleteFlashGroup e g c = syncPutFlashGroupInfo e opSyncDeleteFlashGroup g c"

section \<open>Assigning and releasing one node\<close>

definition setFlashNodeToFlashGroup ::
  "env \<Rightarrow> string \<Rightarrow> 64 word \<Rightarrow> Cluster \<Rightarrow> (error + ptr) \<times> Cluster" where
  "setFlashNodeToFlashGroup e addr flashGroupID c =
     (case peekFlashNode addr c of
        Inl err \<Rightarrow> (Inl err, c)
      | Inr p \<Rightarrow>
          let flashNode = nodeHeap c p in
          if FlashGroupID flashNode \<noteq> unusedFlashNodeFlashGroupID e
          then (Inl (ErrCanNotAdd (Addr flashNode) (FlashGroupID flashNode) flashGroupID), c)
          else
            (case timeSince e (ReportTime flashNode) c of
               (since, c1) \<Rightarrow>
                 if since > defaultNodeTimeoutDuration e
                 then (Inl (ErrInactive (Addr flashNode) (ReportTime flashNode)),
                       setNode p (\<lambda>n. n\<lparr>IsActive := False\<rparr>) c1)
                 else
                   let oldFgID = FlashGroupID flashNode;
                       c2 = setNode p (\<lambda>n. n\<lparr>FlashGroupID := flashGroupID\<rparr>) c1
                   in (case syncUpdateFlashNode e p c2 of
                         (Some err, c3) \<Rightarrow>
                           (Inl err, setNode p (\<lambda>n. n\<lparr>FlashGroupID := oldFgID\<rparr>) c3)
                       | (None, c3) \<Rightarrow> (Inr p, c3))))"

definition addFlashNodeToFlashGroup ::
  "env \<Rightarrow> string \<Rightarrow> ptr \<Rightarrow> Cluster \<Rightarrow> error option \<times> Cluster" where
  "addFlashNodeToFlashGroup e addr g c =
     (case setFlashNodeToFlashGroup e addr (ID (groupHeap c g)) c of
        (Inl err, c1) \<Rightarrow> (Some err, c1)
      | (Inr p, c1) \<Rightarrow> (None, putFlashNode g p c1))"

definition setFlashNodeToUnused ::
  "env \<Rightarrow> string \<Rightarrow> 64 word \<Rightarrow> Cluster \<Rightarrow> (error + ptr) \<times> Cluster" where
  "setFlashNodeToUnused e addr flashGroupID c =
     (case peekFlashNode addr c of
        Inl err \<Rightarrow> (Inl err, c)
      | Inr p \<Rightarrow>
          let flashNode = nodeHeap c p in
          if FlashGroupID flashNode \<noteq> flashGroupID
          then (Inl (ErrNotEqualTarget (Addr flashNode) (FlashGroupID flashNode) flashGroupID), c)
          else
            let oldFgID = FlashGroupID flashNode;
                c1 = setNode p (\<lambda>n. n\<lparr>FlashGroupID := unusedFlashNodeFlashGroupID e\<rparr>) c
            in (case syncUpdateFlashNode e p c1 of
                  (Some err, c2) \<Rightarrow> (Inl err, setNode p (\<lambda>n. n\<lparr>FlashGroupID := oldFgID\<rparr>) c2)
                | (None, c2) \<Rightarrow> (Inr p, c2)))"

definition removeFlashNodeFromFlashGroup ::
  "env \<Rightarrow> string \<Rightarrow> ptr \<Rightarrow> Cluster \<Rightarrow> error option \<times> Cluster" where
  "removeFlashNodeFromFlashGroup e addr g c =
     (case setFlashNodeToUnused e addr (ID (groupHeap c g)) c of
        (Inl err, c1) \<Rightarrow> (Some err, c1)
      | (Inr p, c1) \<Rightarrow> (None, removeFlashNode g (Addr (nodeHeap c1 p)) c1))"

section \<open>Batch operations\<close>

text \<open>
  The three loops over a list of hosts.  \<open>successHost\<close> is the slice the loop appends to,
  the list before it the whole host list, which the error message prints.
\<close>

fun addHostsLoop ::
  "env \<Rightarrow> ptr \<Rightarrow> string list \<Rightarrow> string list \<Rightarrow> string list \<Rightarrow> Cluster \<Rightarrow> error option \<times> Cluster" where
  "addHostsLoop e g newHosts successHost [] c = (None, c)"
| "addHostsLoop e g newHosts successHost (newHost # rest) c =
     (case addFlashNodeToFlashGroup e newHost g c of
        (Some err, c1) \<Rightarrow> (Some (ErrSuccessHost successHost newHosts err), c1)
      | (None, c1) \<Rightarrow> addHostsLoop e g newHosts (successHost @ [newHost]) rest c1)"

definition selectFlashNodesFromZoneAddToFlashGroup ::
  "env \<Rightarrow> string \<Rightarrow> int \<Rightarrow> string list \<Rightarrow> ptr \<Rightarrow> Cluster \<Rightarrow> error option \<times> Cluster" where
  "selectFlashNodesFromZoneAddToFlashGroup e zoneName count excludeHosts g c =
     (case zoneSelect e zoneName count excludeHosts c of
        Inl err \<Rightarrow> (Some err, c)
      | Inr newHosts \<Rightarrow> addHostsLoop e g newHosts [] newHosts c)"

fun removeZoneLoop ::
  "env \<Rightarrow> ptr \<Rightarrow> int \<Rightarrow> string list \<Rightarrow> string list \<Rightarrow> string list \<Rightarrow> Cluster
     \<Rightarrow> error option \<times> Cluster" where
  "removeZoneLoop e g count flashNodeHosts successHost [] c = (None, c)"
| "removeZoneLoop e g count flashNodeHosts successHost (flashNodeHost # rest) c =
     (case removeFlashNodeFromFlashGroup e flashNodeHost g c of
        (Some err, c1) \<Rightarrow> (Some (ErrSuccessHost successHost flashNodeHosts err), c1)
      | (None, c1) \<Rightarrow>
          if int (length (successHost @ [flashNodeHost])) \<ge> count then (None, c1)
          else removeZoneLoop e g count flashNodeHosts (successHost @ [flashNodeHost]) rest c1)"

definition removeFlashNodesFromTargetZone ::
  "env \<Rightarrow> string \<Rightarrow> int \<Rightarrow> ptr \<Rightarrow> Cluster \<Rightarrow> error option \<times> Cluster" where
  "removeFlashNodesFromTargetZone e zoneName count g c =
     (let flashNodeHosts = getTargetZoneFlashNodeHosts g zoneName c in
      if int (length flashNodeHosts) < count
      then (Some (ErrLessThanExpect (length flashNodeHosts) count flashNodeHosts), c)
      else removeZoneLoop e g count flashNodeHosts [] flashNodeHosts c)"

fun removeHostsLoop ::
  "env \<Rightarrow> ptr \<Rightarrow> string list \<Rightarrow> string list \<Rightarrow> string list \<Rightarrow> Cluster \<Rightarrow> error option \<times> Cluster" where
  "removeHostsLoop e g flashNodeHosts successHost [] c = (None, c)"
| "removeHostsLoop e g flashNodeHosts successHost (flashNodeHost # rest) c =
     (case removeFlashNodeFromFlashGroup e flashNodeHost g c of
        (Some err, c1) \<Rightarrow> (Some (ErrSuccessHost successHost flashNodeHosts err), c1)
      | (None, c1) \<Rightarrow>
          removeHostsLoop e g flashNodeHosts (successHost @ [flashNodeHost]) rest c1)"

text \<open>\<^verbatim>\<open>Cluster.removeFlashGroup\<close>: "remove flash nodes then del the flash group".\<close>

definition removeFlashGroup :: "env \<Rightarrow> ptr \<Rightarrow> Cluster \<Rightarrow> error option \<times> Cluster" where
  "removeFlashGroup e g c =
     (let flashNodeHosts = getFlashNodeHosts e g False c in
      case removeHostsLoop e g flashNodeHosts [] flashNodeHosts c of
        (Some err, c1) \<Rightarrow> (Some err, c1)
      | (None, c1) \<Rightarrow> topoRemoveFlashGroup e g c1)"

section \<open>Request handlers\<close>

text \<open>
  A handler takes what the argument parser returned (an error, or the parsed values) and
  returns the reply it sends together with the new state.
\<close>

definition flashGroupAddFlashNode ::
  "env \<Rightarrow> error + (64 word \<times> string \<times> string \<times> int) \<Rightarrow> Cluster
     \<Rightarrow> FlashGroupAdminView reply \<times> Cluster" where
  "flashGroupAddFlashNode e args c =
     (case args of
        Inl err \<Rightarrow> (ErrReply err, c)
      | Inr (flashGroupID, addr, zoneName, count) \<Rightarrow>
          (case getFlashGroup flashGroupID c of
             Inl err \<Rightarrow> (ErrReply err, c)
           | Inr g \<Rightarrow>
               (case (if addr \<noteq> [] then addFlashNodeToFlashGroup e addr g c
                      else selectFlashNodesFromZoneAddToFlashGroup e zoneName count [] g c) of
                  (Some err, c1) \<Rightarrow> (ErrReply err, c1)
                | (None, c1) \<Rightarrow>
                    let c2 = updateClientCache e c1 in (OkReply (GetAdminView g c2), c2))))"

definition flashGroupRemoveFlashNode ::
  "env \<Rightarrow> error + (64 word \<times> string \<times> string \<times> int) \<Rightarrow> Cluster
     \<Rightarrow> FlashGroupAdminView reply \<times> Cluster" where
  "flashGroupRemoveFlashNode e args c =
     (case args of
        Inl err \<Rightarrow> (ErrReply err, c)
      | Inr (flashGroupID, addr, zoneName, count) \<Rightarrow>
          (case getFlashGroup flashGroupID c of
             Inl err \<Rightarrow> (ErrReply err, c)
           | Inr g \<Rightarrow>
               (case (if addr \<noteq> [] then removeFlashNodeFromFlashGroup e addr g c
                      else removeFlashNodesFromTargetZone e zoneName count g c) of
                  (Some err, c1) \<Rightarrow> (ErrReply err, c1)
                | (None, c1) \<Rightarrow>
                    let c2 = updateClientCache e c1 in (OkReply (GetAdminView g c2), c2))))"

definition argConvertFlashGroupStatus :: "bool \<Rightarrow> FlashGroupStatus" where
  "argConvertFlashGroupStatus active =
     (if active then FlashGroupStatus_Active else FlashGroupStatus_Inactive)"

definition setFlashGroup ::
  "env \<Rightarrow> error + (64 word \<times> bool) \<Rightarrow> Cluster \<Rightarrow> FlashGroupAdminView reply \<times> Cluster" where
  "setFlashGroup e args c =
     (case args of
        Inl err \<Rightarrow> (ErrReply err, c)
      | Inr (flashGroupID, active) \<Rightarrow>
          let fgStatus = argConvertFlashGroupStatus active in
          (case getFlashGroup flashGroupID c of
             Inl err \<Rightarrow> (ErrReply err, c)
           | Inr g \<Rightarrow>
               let oldStatus = Status (groupHeap c g);
                   c1 = setGroup g (\<lambda>fg. fg\<lparr>Status := fgStatus\<rparr>) c
               in if oldStatus \<noteq> fgStatus
                  then (case syncUpdateFlashGroup e g c1 of
                          (Some err, c2) \<Rightarrow>
                            (ErrReply err, setGroup g (\<lambda>fg. fg\<lparr>Status := oldStatus\<rparr>) c2)
                        | (None, c2) \<Rightarrow>
                            let c3 = updateClientCache e c2 in (OkReply (GetAdminView g c3), c3))
                  else (OkReply (GetAdminView g c1), c1)))"

text \<open>\<^verbatim>\<open>turnFlashGroup\<close> stores the nil slice when serving is enabled and \<^verbatim>\<open>clientEmpty\<close> when it
  is disabled; the reply is the text "turn true" or "turn false".\<close>

definition turnFlashGroup :: "error + bool \<Rightarrow> Cluster \<Rightarrow> string reply \<times> Cluster" where
  "turnFlashGroup args c =
     (case args of
        Inl err \<Rightarrow> (ErrReply err, c)
      | Inr enabled \<Rightarrow>
          (OkReply (''turn '' @ (if enabled then ''true'' else ''false'')),
           if enabled then c\<lparr>clientOff := []\<rparr> else c\<lparr>clientOff := clientEmpty c\<rparr>))"

text \<open>
  Modelled from the spec: \<^verbatim>\<open>getClientResponse\<close> is not in this file.  "when disabled, client
  queries receive an empty response regardless of the real cache contents"; disabled is
  the state in which \<^verbatim>\<open>turnFlashGroup\<close> has stored the empty response in \<open>clientOff\<close>, and
  otherwise the query is answered from the snapshot.
\<close>

definition getClientResponse :: "Cluster \<Rightarrow> bytes" where
  "getClientResponse c = (if clientOff c \<noteq> [] then clientOff c else clientCache c)"

text \<open>\<open>OkReply cache\<close> stands for \<^verbatim>\<open>send(w, r, cache)\<close>: the bytes are written as they are.\<close>

definition clientFlashGroups :: "Cluster \<Rightarrow> bytes reply" where
  "clientFlashGroups c =
     (let cache = getClientResponse c in
      if length cache = 0 then ErrReply ErrCacheEmpty else OkReply cache)"

section \<open>Parsing the slots of a request\<close>

text \<open>\<^verbatim>\<open>strings.Split(s, sep)\<close> for a separator of one character: one token more than there
  are separators.\<close>

fun splitOn :: "char \<Rightarrow> string \<Rightarrow> string list" where
  "splitOn sep [] = [[]]"
| "splitOn sep (ch # s) =
     (if ch = sep then [] # splitOn sep s
      else (case splitOn sep s of [] \<Rightarrow> [[ch]] | tok # toks \<Rightarrow> (ch # tok) # toks))"

text \<open>
  \<^verbatim>\<open>strconv.ParseUint(s, 10, bitSize)\<close>: the empty string is a syntax error; the characters
  are read from the left, one that is not a decimal digit is a syntax error, and a value
  above \<open>2 ^ bitSize - 1\<close> is a range error.  In base 10 neither a sign nor an underscore
  is accepted.
\<close>

datatype numError = ErrSyntax | ErrRange

definition isDigit :: "char \<Rightarrow> bool" where
  "isDigit ch = (48 \<le> (of_char ch :: nat) \<and> (of_char ch :: nat) \<le> 57)"

definition digitVal :: "char \<Rightarrow> nat" where
  "digitVal ch = of_char ch - 48"

fun parseUintLoop :: "nat \<Rightarrow> nat \<Rightarrow> string \<Rightarrow> numError + nat" where
  "parseUintLoop maxVal n [] = Inr n"
| "parseUintLoop maxVal n (ch # s) =
     (if \<not> isDigit ch then Inl ErrSyntax
      else if n * 10 + digitVal ch > maxVal then Inl ErrRange
      else parseUintLoop maxVal (n * 10 + digitVal ch) s)"

definition ParseUint :: "string \<Rightarrow> nat \<Rightarrow> numError + nat" where
  "ParseUint s bitSize = (if s = [] then Inl ErrSyntax else parseUintLoop (2 ^ bitSize - 1) 0 s)"

fun slotsLoop :: "nat \<Rightarrow> 32 word list \<Rightarrow> string list \<Rightarrow> 32 word list" where
  "slotsLoop maxCount slots [] = slots"
| "slotsLoop maxCount slots (tok # arr) =
     (case ParseUint tok 32 of
        Inl err \<Rightarrow> slotsLoop maxCount slots arr
      | Inr slot \<Rightarrow>
          if length slots \<ge> maxCount then slots
          else slotsLoop maxCount (slots @ [word_of_nat slot]) arr)"

text \<open>\<open>slotStr\<close> is \<^verbatim>\<open>r.FormValue("slots")\<close>.\<close>

definition getSetSlots :: "env \<Rightarrow> string \<Rightarrow> 32 word list" where
  "getSetSlots e slotStr =
     (if slotStr \<noteq> [] then slotsLoop (defaultFlashGroupSlotsCount e) [] (splitOn CHR '','' slotStr)
      else [])"

section \<open>Predicates of the statements\<close>

text \<open>A node-assignment record for the address \<open>addr\<close> that carries the group \<open>gid\<close> has
  been committed.\<close>

definition persisted :: "Cluster \<Rightarrow> string \<Rightarrow> 64 word \<Rightarrow> bool" where
  "persisted c addr gid =
     list_ex (\<lambda>cmd. Op cmd = opSyncUpdateFlashNode \<and> K cmd = flashNodePrefix addr \<and>
                (case V cmd of NodeV n \<Rightarrow> FlashGroupID n = gid | GroupV v \<Rightarrow> False))
       (raftLog c)"


text \<open>The node registry keys every node by its own address.\<close>

definition registryOK :: "Cluster \<Rightarrow> bool" where
  "registryOK c = (\<forall>addr p. flashNodeMap c addr = Some p \<longrightarrow> Addr (nodeHeap c p) = addr)"

text \<open>
  Applying a single-host operation to the hosts of a list one after the other, each in
  the state the one before it left: the state after the last one when all of them
  succeed, \<open>None\<close> when one of them fails.
\<close>

fun runHosts ::
  "(string \<Rightarrow> Cluster \<Rightarrow> error option \<times> Cluster) \<Rightarrow> string list \<Rightarrow> Cluster \<Rightarrow> Cluster option" where
  "runHosts f [] c = Some c"
| "runHosts f (h # hs) c =
     (case f h c of (Some err, c1) \<Rightarrow> None | (None, c1) \<Rightarrow> runHosts f hs c1)"

text \<open>The host \<open>h\<close> is assigned to the group \<open>g\<close>, and released from it.\<close>

definition assignedTo :: "ptr \<Rightarrow> Cluster \<Rightarrow> string \<Rightarrow> bool" where
  "assignedTo g c h =
     (case flashNodeMap c h of
        None \<Rightarrow> False
      | Some p \<Rightarrow> FlashGroupID (nodeHeap c p) = ID (groupHeap c g) \<and>
                 Addr (nodeHeap c p) \<in> fst ` set (flashNodes (groupHeap c g)))"

definition releasedFrom :: "env \<Rightarrow> ptr \<Rightarrow> Cluster \<Rightarrow> string \<Rightarrow> bool" where
  "releasedFrom e g c h =
     (case flashNodeMap c h of
        None \<Rightarrow> False
      | Some p \<Rightarrow> FlashGroupID (nodeHeap c p) = unusedFlashNodeFlashGroupID e \<and>
                 Addr (nodeHeap c p) \<notin> fst ` set (flashNodes (groupHeap c g)))"

text \<open>The values of the tokens that \<^verbatim>\<open>ParseUint\<close> accepts with 32 bits, in the order of the
  tokens.\<close>

fun parsedSlots :: "string list \<Rightarrow> nat list" where
  "parsedSlots [] = []"
| "parsedSlots (tok # arr) =
     (case ParseUint tok 32 of Inl err \<Rightarrow> parsedSlots arr | Inr slot \<Rightarrow> slot # parsedSlots arr)"

section \<open>An example cluster\<close>

text \<open>
  Modelled from the spec: the topology's \<^verbatim>\<open>removeFlashGroup\<close> is not in this file.
  "requires the group to have zero members; persists a group-delete record; on success
  removes it from the registry.  Fails with PersistenceError on sink rejection, leaving
  the registry unchanged; fails with PreconditionError if members remain."  It is used
  for the example environment only.
\<close>

definition topoRemoveSpec :: "env \<Rightarrow> ptr \<Rightarrow> Cluster \<Rightarrow> error option \<times> Cluster" where
  "topoRemoveSpec e g c =
     (if flashNodes (groupHeap c g) \<noteq> [] then (Some (ErrFlashGroupNotEmpty (ID (groupHeap c g))), c)
      else (case syncDeleteFlashGroup e g c of
              (Some err, c1) \<Rightarrow> (Some err, c1)
            | (None, c1) \<Rightarrow>
                (None, c1\<lparr>flashGroupMap := (flashGroupMap c1)(ID (groupHeap c1 g) := None)\<rparr>)))"

definition exNode :: "string \<Rightarrow> int \<Rightarrow> 64 word \<Rightarrow> FlashNode" where
  "exNode a t gid =
     \<lparr>Addr = a, ZoneName = ''z1'', ReportTime = t, IsActive = True, FlashGroupID = gid\<rparr>"

text \<open>
  Three nodes and the group with ID 7 (the other group objects have ID 8 and no
  members).  The nodes \<open>n0\<close> and \<open>n1\<close> are unassigned, \<open>n1\<close>
  reported long ago; \<open>n2\<close> is a member of the group.  The sentinel is 0 and the clock
  reads 1000 with a timeout of 100.
\<close>

definition exCluster :: Cluster where
  "exCluster =
     \<lparr>nodeHeap = (\<lambda>p. if p = 0 then exNode ''n0'' 950 0
                      else if p = 1 then exNode ''n1'' 100 0 else exNode ''n2'' 950 7),
      groupHeap = (\<lambda>g. \<lparr>ID = (if g = 0 then 7 else 8), Slots = [100, 5000],
                         Status = FlashGroupStatus_Inactive,
                         flashNodes = (if g = 0 then [(''n2'', 2)] else [])\<rparr>),
      flashNodeMap = [''n0'' \<mapsto> 0, ''n1'' \<mapsto> 1, ''n2'' \<mapsto> 2],
      flashGroupMap = [7 \<mapsto> 0],
      raftLog = [\<lparr>Op = opSyncUpdateFlashNode, K = flashNodePrefix ''n2'',
                  V = NodeV (exNode ''n2'' 950 7)\<rparr>],
      submitted = 1, clockReads = 0,
      clientOff = [], clientEmpty = [123, 125], clientCache = [1, 2, 3], rebuilds = 0\<rparr>"

definition exEnv0 :: "bool \<Rightarrow> env" where
  "exEnv0 ok =
     \<lparr>unusedFlashNodeFlashGroupID = 0, defaultNodeTimeoutDuration = 100,
      defaultFlashGroupSlotsCount = 32, raftAccepts = (\<lambda>n. ok), clock = (\<lambda>n. 1000),
      render = (\<lambda>c. map (\<lambda>(host, p). of_nat p) (flashNodes (groupHeap c 0))),
      zoneSelect = (\<lambda>zoneName count excludeHosts c. Inr [''n0'', ''n1'']),
      topoRemoveFlashGroup = (\<lambda>g c. (None, c)),
      isActiveAndEnable = IsActive\<rparr>"

text \<open>The example environment: the sink commits everything (\<open>ok\<close>) or nothing.\<close>

definition exEnv :: "bool \<Rightarrow> env" where
  "exEnv ok = (exEnv0 ok)\<lparr>topoRemoveFlashGroup := topoRemoveSpec (exEnv0 ok)\<rparr>"

section \<open>Lemmas about one assignment and one release\<close>

lemmas single_defs = addFlashNodeToFlashGroup_def setFlashNodeToFlashGroup_def
  removeFlashNodeFromFlashGroup_def setFlashNodeToUnused_def peekFlashNode_def timeSince_def
  syncUpdateFlashNode_def submit_def setNode_def setGroup_def putFlashNode_def removeFlashNode_def Let_def

lemmas ex_defs = exCluster_def exEnv_def exEnv0_def exNode_def topoRemoveSpec_def
  syncDeleteFlashGroup_def syncPutFlashGroupInfo_def

lemma node_rollback [simp]:
  "FlashGroupID (h p) = v \<Longrightarrow> h(p := (h p)\<lparr>FlashGroupID := v\<rparr>) = h"
  by (auto simp: fun_eq_iff)


lemma update_key_mem: "k \<in> fst ` set (AList.update k v al)"
  by (simp add: dom_update)

text \<open>The result of assigning one node, case by case.\<close>

lemma add_result:
  "addFlashNodeToFlashGroup e addr g c =
     (case flashNodeMap c addr of
        None \<Rightarrow> (Some (ErrFlashNodeNotFound addr), c)
      | Some p \<Rightarrow>
          if FlashGroupID (nodeHeap c p) \<noteq> unusedFlashNodeFlashGroupID e
          then (Some (ErrCanNotAdd (Addr (nodeHeap c p)) (FlashGroupID (nodeHeap c p))
                        (ID (groupHeap c g))), c)
          else if clock e (clockReads c) - ReportTime (nodeHeap c p) > defaultNodeTimeoutDuration e
          then (Some (ErrInactive (Addr (nodeHeap c p)) (ReportTime (nodeHeap c p))),
                c\<lparr>nodeHeap := (nodeHeap c)(p := (nodeHeap c p)\<lparr>IsActive := False\<rparr>),
                  clockReads := Suc (clockReads c)\<rparr>)
          else if \<not> raftAccepts e (submitted c)
          then (Some ErrSubmit, c\<lparr>submitted := Suc (submitted c), clockReads := Suc (clockReads c)\<rparr>)
          else (None,
                c\<lparr>nodeHeap := (nodeHeap c)
                      (p := (nodeHeap c p)\<lparr>FlashGroupID := ID (groupHeap c g)\<rparr>),
                  groupHeap := (groupHeap c)
                      (g := (groupHeap c g)\<lparr>flashNodes :=
                         AList.update (Addr (nodeHeap c p)) p (flashNodes (groupHeap c g))\<rparr>),
                  raftLog := raftLog c @
                      [\<lparr>Op = opSyncUpdateFlashNode, K = flashNodePrefix (Addr (nodeHeap c p)),
                        V = NodeV ((nodeHeap c p)\<lparr>FlashGroupID := ID (groupHeap c g)\<rparr>)\<rparr>],
                  submitted := Suc (submitted c), clockReads := Suc (clockReads c)\<rparr>))"
  by (auto simp add: single_defs split: option.splits)

lemma remove_result:
  "removeFlashNodeFromFlashGroup e addr g c =
     (case flashNodeMap c addr of
        None \<Rightarrow> (Some (ErrFlashNodeNotFound addr), c)
      | Some p \<Rightarrow>
          if FlashGroupID (nodeHeap c p) \<noteq> ID (groupHeap c g)
          then (Some (ErrNotEqualTarget (Addr (nodeHeap c p)) (FlashGroupID (nodeHeap c p))
                        (ID (groupHeap c g))), c)
          else if \<not> raftAccepts e (submitted c)
          then (Some ErrSubmit, c\<lparr>submitted := Suc (submitted c)\<rparr>)
          else (None,
                c\<lparr>nodeHeap := (nodeHeap c)
                      (p := (nodeHeap c p)\<lparr>FlashGroupID := unusedFlashNodeFlashGroupID e\<rparr>),
                  groupHeap := (groupHeap c)
                      (g := (groupHeap c g)\<lparr>flashNodes :=
                         AList.delete (Addr (nodeHeap c p)) (flashNodes (groupHeap c g))\<rparr>),
                  raftLog := raftLog c @
                      [\<lparr>Op = opSyncUpdateFlashNode, K = flashNodePrefix (Addr (nodeHeap c p)),
                        V = NodeV ((nodeHeap c p)\<lparr>FlashGroupID := unusedFlashNodeFlashGroupID e\<rparr>)\<rparr>],
                  submitted := Suc (submitted c)\<rparr>))"
  by (auto simp add: single_defs split: option.splits)




text \<open>A failed assignment leaves the groups, the log and every node's address and
  assigned-group field as they were.\<close>

lemma add_fail_frame:
  assumes "fst (addFlashNodeToFlashGroup e addr g c) = Some err"
  shows "groupHeap (snd (addFlashNodeToFlashGroup e addr g c)) = groupHeap c"
    and "raftLog (snd (addFlashNodeToFlashGroup e addr g c)) = raftLog c"
    and "FlashGroupID (nodeHeap (snd (addFlashNodeToFlashGroup e addr g c)) q) =
           FlashGroupID (nodeHeap c q)"
    and "Addr (nodeHeap (snd (addFlashNodeToFlashGroup e addr g c)) q) = Addr (nodeHeap c q)"
  using assms by (auto simp add: add_result split: option.splits if_splits)

lemma add_ok_state:
  assumes "fst (addFlashNodeToFlashGroup e addr g c) = None"
  obtains p where "flashNodeMap c addr = Some p"
    and "FlashGroupID (nodeHeap c p) = unusedFlashNodeFlashGroupID e"
    and "snd (addFlashNodeToFlashGroup e addr g c) =
           c\<lparr>nodeHeap := (nodeHeap c)
                 (p := (nodeHeap c p)\<lparr>FlashGroupID := ID (groupHeap c g)\<rparr>),
             groupHeap := (groupHeap c)
                 (g := (groupHeap c g)\<lparr>flashNodes :=
                    AList.update (Addr (nodeHeap c p)) p (flashNodes (groupHeap c g))\<rparr>),
             raftLog := raftLog c @
                 [\<lparr>Op = opSyncUpdateFlashNode, K = flashNodePrefix (Addr (nodeHeap c p)),
                   V = NodeV ((nodeHeap c p)\<lparr>FlashGroupID := ID (groupHeap c g)\<rparr>)\<rparr>],
             submitted := Suc (submitted c), clockReads := Suc (clockReads c)\<rparr>"
  using assms by (auto simp add: add_result split: option.splits if_splits)



lemma add_flashNodeMap:
  "flashNodeMap (snd (addFlashNodeToFlashGroup e addr g c)) = flashNodeMap c"
  by (simp add: add_result split: option.splits)

lemma remove_flashNodeMap:
  "flashNodeMap (snd (removeFlashNodeFromFlashGroup e addr g c)) = flashNodeMap c"
  by (simp add: remove_result split: option.splits)

lemma remove_fail_frame:
  assumes "fst (removeFlashNodeFromFlashGroup e addr g c) = Some err"
  shows "groupHeap (snd (removeFlashNodeFromFlashGroup e addr g c)) = groupHeap c"
    and "nodeHeap (snd (removeFlashNodeFromFlashGroup e addr g c)) = nodeHeap c"
    and "raftLog (snd (removeFlashNodeFromFlashGroup e addr g c)) = raftLog c"
  using assms by (auto simp add: remove_result split: option.splits if_splits)

lemma remove_ok_state:
  assumes "fst (removeFlashNodeFromFlashGroup e addr g c) = None"
  obtains p where "flashNodeMap c addr = Some p"
    and "FlashGroupID (nodeHeap c p) = ID (groupHeap c g)"
    and "snd (removeFlashNodeFromFlashGroup e addr g c) =
           c\<lparr>nodeHeap := (nodeHeap c)
                 (p := (nodeHeap c p)\<lparr>FlashGroupID := unusedFlashNodeFlashGroupID e\<rparr>),
             groupHeap := (groupHeap c)
                 (g := (groupHeap c g)\<lparr>flashNodes :=
                    AList.delete (Addr (nodeHeap c p)) (flashNodes (groupHeap c g))\<rparr>),
             raftLog := raftLog c @
                 [\<lparr>Op = opSyncUpdateFlashNode, K = flashNodePrefix (Addr (nodeHeap c p)),
                   V = NodeV ((nodeHeap c p)\<lparr>FlashGroupID := unusedFlashNodeFlashGroupID e\<rparr>)\<rparr>],
             submitted := Suc (submitted c)\<rparr>"
  using assms by (auto simp add: remove_result split: option.splits if_splits)

section \<open>Lemmas about the loops\<close>

lemma addHostsLoop_ok:
  "runHosts (\<lambda>h. addFlashNodeToFlashGroup e h g) hs c = Some c1 \<Longrightarrow>
   addHostsLoop e g hosts acc hs c = (None, c1)"
  by (induction hs arbitrary: c acc) (auto split: prod.splits option.splits)

lemma addHostsLoop_fail:
  "runHosts (\<lambda>h. addFlashNodeToFlashGroup e h g) pre c = Some c1 \<Longrightarrow>
   addFlashNodeToFlashGroup e h g c1 = (Some err, c2) \<Longrightarrow>
   addHostsLoop e g hosts acc (pre @ h # post) c = (Some (ErrSuccessHost (acc @ pre) hosts err), c2)"
  by (induction pre arbitrary: c acc) (auto split: prod.splits option.splits)

lemma removeHostsLoop_ok:
  "runHosts (\<lambda>h. removeFlashNodeFromFlashGroup e h g) hs c = Some c1 \<Longrightarrow>
   removeHostsLoop e g hosts acc hs c = (None, c1)"
  by (induction hs arbitrary: c acc) (auto split: prod.splits option.splits)

lemma removeHostsLoop_fail:
  "runHosts (\<lambda>h. removeFlashNodeFromFlashGroup e h g) pre c = Some c1 \<Longrightarrow>
   removeFlashNodeFromFlashGroup e h g c1 = (Some err, c2) \<Longrightarrow>
   removeHostsLoop e g hosts acc (pre @ h # post) c =
     (Some (ErrSuccessHost (acc @ pre) hosts err), c2)"
  by (induction pre arbitrary: c acc) (auto split: prod.splits option.splits)

text \<open>The loop of the zone removal is the plain loop over the first hosts: as many as
  are still wanted, and at least one.\<close>

lemma removeZoneLoop_take:
  "removeZoneLoop e g count hosts acc hs c =
   removeHostsLoop e g hosts acc (take (nat (max 1 (count - int (length acc)))) hs) c"
proof (induction hs arbitrary: c acc)
  case Nil
  show ?case by simp
next
  case (Cons h hs)
  obtain n where n: "nat (max 1 (count - int (length acc))) = Suc n"
    by (cases "nat (max 1 (count - int (length acc)))") auto
  show ?case
  proof (cases "removeFlashNodeFromFlashGroup e h g c")
    case (Pair r c1)
    show ?thesis
    proof (cases r)
      case (Some err)
      then show ?thesis using Pair n by simp
    next
      case None
      show ?thesis
      proof (cases "int (length (acc @ [h])) \<ge> count")
        case True
        then have "n = 0" using n by (simp add: max_def split: if_splits)
        then show ?thesis using Pair None n True by simp
      next
        case False
        then have "nat (max 1 (count - int (length (acc @ [h])))) = n"
          using n by (simp add: max_def split: if_splits)
        then show ?thesis using Pair None n False Cons.IH [of "acc @ [h]" c1] by simp
      qed
    qed
  qed
qed

section \<open>Committed hosts stay committed\<close>

lemma assignedTo_add:
  assumes "assignedTo g c x"
  shows "assignedTo g (snd (addFlashNodeToFlashGroup e h g c)) x"
proof (cases "fst (addFlashNodeToFlashGroup e h g c)")
  case (Some err)
  show ?thesis
    using assms unfolding assignedTo_def
    by (simp add: add_fail_frame [OF Some] add_flashNodeMap split: option.splits)
next
  case None
  then obtain p where st: "snd (addFlashNodeToFlashGroup e h g c) =
           c\<lparr>nodeHeap := (nodeHeap c)
                 (p := (nodeHeap c p)\<lparr>FlashGroupID := ID (groupHeap c g)\<rparr>),
             groupHeap := (groupHeap c)
                 (g := (groupHeap c g)\<lparr>flashNodes :=
                    AList.update (Addr (nodeHeap c p)) p (flashNodes (groupHeap c g))\<rparr>),
             raftLog := raftLog c @
                 [\<lparr>Op = opSyncUpdateFlashNode, K = flashNodePrefix (Addr (nodeHeap c p)),
                   V = NodeV ((nodeHeap c p)\<lparr>FlashGroupID := ID (groupHeap c g)\<rparr>)\<rparr>],
             submitted := Suc (submitted c), clockReads := Suc (clockReads c)\<rparr>"
    by (rule add_ok_state)
  show ?thesis
    using assms unfolding assignedTo_def st
    by (auto simp add: dom_update split: option.splits)
qed

lemma assignedTo_added:
  assumes "fst (addFlashNodeToFlashGroup e h g c) = None"
  shows "assignedTo g (snd (addFlashNodeToFlashGroup e h g c)) h"
proof -
  from assms obtain p where p: "flashNodeMap c h = Some p"
    and st: "snd (addFlashNodeToFlashGroup e h g c) =
           c\<lparr>nodeHeap := (nodeHeap c)
                 (p := (nodeHeap c p)\<lparr>FlashGroupID := ID (groupHeap c g)\<rparr>),
             groupHeap := (groupHeap c)
                 (g := (groupHeap c g)\<lparr>flashNodes :=
                    AList.update (Addr (nodeHeap c p)) p (flashNodes (groupHeap c g))\<rparr>),
             raftLog := raftLog c @
                 [\<lparr>Op = opSyncUpdateFlashNode, K = flashNodePrefix (Addr (nodeHeap c p)),
                   V = NodeV ((nodeHeap c p)\<lparr>FlashGroupID := ID (groupHeap c g)\<rparr>)\<rparr>],
             submitted := Suc (submitted c), clockReads := Suc (clockReads c)\<rparr>"
    by (rule add_ok_state)
  show ?thesis unfolding assignedTo_def st using p by (simp add: dom_update)
qed

lemma runHosts_add_assigned:
  "runHosts (\<lambda>h. addFlashNodeToFlashGroup e h g) hs c = Some c1 \<Longrightarrow>
   (\<forall>x \<in> A. assignedTo g c x) \<Longrightarrow> \<forall>x \<in> A \<union> set hs. assignedTo g c1 x"
proof (induction hs arbitrary: c A)
  case Nil
  then show ?case by simp
next
  case (Cons h hs)
  from Cons.prems(1) obtain c' where r: "addFlashNodeToFlashGroup e h g c = (None, c')"
    and rest: "runHosts (\<lambda>h. addFlashNodeToFlashGroup e h g) hs c' = Some c1"
    by (auto split: prod.splits option.splits)
  have c': "c' = snd (addFlashNodeToFlashGroup e h g c)" using r by simp
  have f: "fst (addFlashNodeToFlashGroup e h g c) = None" using r by simp
  have "\<forall>x \<in> insert h A. assignedTo g c' x"
    using Cons.prems(2) assignedTo_add [of g c _ e h] assignedTo_added [OF f]
    unfolding c' by auto
  from Cons.IH [OF rest this] show ?case by simp
qed

lemma releasedFrom_remove:
  assumes "releasedFrom e g c x"
  shows "releasedFrom e g (snd (removeFlashNodeFromFlashGroup e h g c)) x"
proof (cases "fst (removeFlashNodeFromFlashGroup e h g c)")
  case (Some err)
  show ?thesis
    using assms unfolding releasedFrom_def
    by (simp add: remove_fail_frame [OF Some] remove_flashNodeMap split: option.splits)
next
  case None
  then obtain p where st: "snd (removeFlashNodeFromFlashGroup e h g c) =
           c\<lparr>nodeHeap := (nodeHeap c)
                 (p := (nodeHeap c p)\<lparr>FlashGroupID := unusedFlashNodeFlashGroupID e\<rparr>),
             groupHeap := (groupHeap c)
                 (g := (groupHeap c g)\<lparr>flashNodes :=
                    AList.delete (Addr (nodeHeap c p)) (flashNodes (groupHeap c g))\<rparr>),
             raftLog := raftLog c @
                 [\<lparr>Op = opSyncUpdateFlashNode, K = flashNodePrefix (Addr (nodeHeap c p)),
                   V = NodeV ((nodeHeap c p)\<lparr>FlashGroupID := unusedFlashNodeFlashGroupID e\<rparr>)\<rparr>],
             submitted := Suc (submitted c)\<rparr>"
    by (rule remove_ok_state)
  show ?thesis
    using assms dom_delete_subset [of "Addr (nodeHeap c p)" "flashNodes (groupHeap c g)"]
    unfolding releasedFrom_def st
    by (auto split: option.splits)
qed

lemma releasedFrom_removed:
  assumes "fst (removeFlashNodeFromFlashGroup e h g c) = None"
  shows "releasedFrom e g (snd (removeFlashNodeFromFlashGroup e h g c)) h"
proof -
  from assms obtain p where p: "flashNodeMap c h = Some p"
    and st: "snd (removeFlashNodeFromFlashGroup e h g c) =
           c\<lparr>nodeHeap := (nodeHeap c)
                 (p := (nodeHeap c p)\<lparr>FlashGroupID := unusedFlashNodeFlashGroupID e\<rparr>),
             groupHeap := (groupHeap c)
                 (g := (groupHeap c g)\<lparr>flashNodes :=
                    AList.delete (Addr (nodeHeap c p)) (flashNodes (groupHeap c g))\<rparr>),
             raftLog := raftLog c @
                 [\<lparr>Op = opSyncUpdateFlashNode, K = flashNodePrefix (Addr (nodeHeap c p)),
                   V = NodeV ((nodeHeap c p)\<lparr>FlashGroupID := unusedFlashNodeFlashGroupID e\<rparr>)\<rparr>],
             submitted := Suc (submitted c)\<rparr>"
    by (rule remove_ok_state)
  show ?thesis unfolding releasedFrom_def st using p by (simp add: delete_notin_dom)
qed

lemma runHosts_remove_released:
  "runHosts (\<lambda>h. removeFlashNodeFromFlashGroup e h g) hs c = Some c1 \<Longrightarrow>
   (\<forall>x \<in> A. releasedFrom e g c x) \<Longrightarrow> \<forall>x \<in> A \<union> set hs. releasedFrom e g c1 x"
proof (induction hs arbitrary: c A)
  case Nil
  then show ?case by simp
next
  case (Cons h hs)
  from Cons.prems(1) obtain c' where r: "removeFlashNodeFromFlashGroup e h g c = (None, c')"
    and rest: "runHosts (\<lambda>h. removeFlashNodeFromFlashGroup e h g) hs c' = Some c1"
    by (auto split: prod.splits option.splits)
  have c': "c' = snd (removeFlashNodeFromFlashGroup e h g c)" using r by simp
  have f: "fst (removeFlashNodeFromFlashGroup e h g c) = None" using r by simp
  have "\<forall>x \<in> insert h A. releasedFrom e g c' x"
    using Cons.prems(2) releasedFrom_remove [of e g c _ h] releasedFrom_removed [OF f]
    unfolding c' by auto
  from Cons.IH [OF rest this] show ?case by simp
qed


text \<open>Evicting every key of the member map empties it, when the registry keys the nodes
  by their addresses.\<close>

lemma registryOK_remove:
  "registryOK c \<Longrightarrow> registryOK (snd (removeFlashNodeFromFlashGroup e h g c))"
  unfolding registryOK_def
  by (auto simp add: remove_result split: option.splits)

lemma runHosts_remove_keys:
  "runHosts (\<lambda>h. removeFlashNodeFromFlashGroup e h g) hs c = Some c1 \<Longrightarrow> registryOK c \<Longrightarrow>
   fst ` set (flashNodes (groupHeap c1 g)) \<subseteq> fst ` set (flashNodes (groupHeap c g)) - set hs"
proof (induction hs arbitrary: c)
  case Nil
  then show ?case by simp
next
  case (Cons h hs)
  from Cons.prems(1) obtain c' where r: "removeFlashNodeFromFlashGroup e h g c = (None, c')"
    and rest: "runHosts (\<lambda>h. removeFlashNodeFromFlashGroup e h g) hs c' = Some c1"
    by (auto split: prod.splits option.splits)
  have c': "c' = snd (removeFlashNodeFromFlashGroup e h g c)" using r by simp
  have f: "fst (removeFlashNodeFromFlashGroup e h g c) = None" using r by simp
  have ok': "registryOK c'" unfolding c' using Cons.prems(2) by (rule registryOK_remove)
  from f obtain p where p: "flashNodeMap c h = Some p"
    and st: "snd (removeFlashNodeFromFlashGroup e h g c) =
           c\<lparr>nodeHeap := (nodeHeap c)
                 (p := (nodeHeap c p)\<lparr>FlashGroupID := unusedFlashNodeFlashGroupID e\<rparr>),
             groupHeap := (groupHeap c)
                 (g := (groupHeap c g)\<lparr>flashNodes :=
                    AList.delete (Addr (nodeHeap c p)) (flashNodes (groupHeap c g))\<rparr>),
             raftLog := raftLog c @
                 [\<lparr>Op = opSyncUpdateFlashNode, K = flashNodePrefix (Addr (nodeHeap c p)),
                   V = NodeV ((nodeHeap c p)\<lparr>FlashGroupID := unusedFlashNodeFlashGroupID e\<rparr>)\<rparr>],
             submitted := Suc (submitted c)\<rparr>"
    by (rule remove_ok_state)
  have a: "Addr (nodeHeap c p) = h" using Cons.prems(2) p unfolding registryOK_def by blast
  have k: "fst ` set (flashNodes (groupHeap c' g)) \<subseteq> fst ` set (flashNodes (groupHeap c g)) - {h}"
    unfolding c' st a
    using delete_notin_dom [of h "flashNodes (groupHeap c g)"]
      dom_delete_subset [of h "flashNodes (groupHeap c g)"]
    by auto
  from Cons.IH [OF rest ok'] k show ?case by auto
qed

lemma evict_all_empty:
  assumes "runHosts (\<lambda>h. removeFlashNodeFromFlashGroup e h g) (getFlashNodeHosts e g False c) c = Some c1"
    and "registryOK c"
  shows "flashNodes (groupHeap c1 g) = []"
proof -
  have h: "set (getFlashNodeHosts e g False c) = fst ` set (flashNodes (groupHeap c g))"
    by (simp add: getFlashNodeHosts_def)
  from runHosts_remove_keys [OF assms] have "fst ` set (flashNodes (groupHeap c1 g)) \<subseteq> {}"
    unfolding h by simp
  then show ?thesis by simp
qed

section \<open>The operations on nodes leave the client cache alone\<close>

lemma add_cache_frame:
  "rebuilds (snd (addFlashNodeToFlashGroup e h g c)) = rebuilds c \<and>
   clientCache (snd (addFlashNodeToFlashGroup e h g c)) = clientCache c"
  by (simp add: add_result split: option.splits)

lemma remove_cache_frame:
  "rebuilds (snd (removeFlashNodeFromFlashGroup e h g c)) = rebuilds c \<and>
   clientCache (snd (removeFlashNodeFromFlashGroup e h g c)) = clientCache c"
  by (simp add: remove_result split: option.splits)

lemma addHostsLoop_cache_frame:
  "rebuilds (snd (addHostsLoop e g hosts acc hs c)) = rebuilds c \<and>
   clientCache (snd (addHostsLoop e g hosts acc hs c)) = clientCache c"
proof (induction hs arbitrary: c acc)
  case Nil
  show ?case by simp
next
  case (Cons h hs)
  show ?case
    using add_cache_frame [of e h g c] Cons [of "acc @ [h]" "snd (addFlashNodeToFlashGroup e h g c)"]
    by (cases "addFlashNodeToFlashGroup e h g c") (auto split: option.splits)
qed

lemma removeHostsLoop_cache_frame:
  "rebuilds (snd (removeHostsLoop e g hosts acc hs c)) = rebuilds c \<and>
   clientCache (snd (removeHostsLoop e g hosts acc hs c)) = clientCache c"
proof (induction hs arbitrary: c acc)
  case Nil
  show ?case by simp
next
  case (Cons h hs)
  show ?case
    using remove_cache_frame [of e h g c]
      Cons [of "acc @ [h]" "snd (removeFlashNodeFromFlashGroup e h g c)"]
    by (cases "removeFlashNodeFromFlashGroup e h g c") (auto split: option.splits)
qed

lemma zone_add_cache_frame:
  "rebuilds (snd (selectFlashNodesFromZoneAddToFlashGroup e zoneName count ex g c)) = rebuilds c \<and>
   clientCache (snd (selectFlashNodesFromZoneAddToFlashGroup e zoneName count ex g c)) = clientCache c"
  by (simp add: selectFlashNodesFromZoneAddToFlashGroup_def addHostsLoop_cache_frame
      split: sum.splits)

lemma zone_remove_cache_frame:
  "rebuilds (snd (removeFlashNodesFromTargetZone e zoneName count g c)) = rebuilds c \<and>
   clientCache (snd (removeFlashNodesFromTargetZone e zoneName count g c)) = clientCache c"
  by (simp add: removeFlashNodesFromTargetZone_def removeZoneLoop_take removeHostsLoop_cache_frame
      Let_def)

lemma group_status_same [simp]:
  "Status (h g) = v \<Longrightarrow> h(g := (h g)\<lparr>Status := v\<rparr>) = h"
  by (auto simp: fun_eq_iff)

lemma handler_cases:
  assumes "rebuilds (snd r) = rebuilds c \<and> clientCache (snd r) = clientCache c"
    and "h = (case r of (Some err, c1) \<Rightarrow> (ErrReply err, c1)
              | (None, c1) \<Rightarrow> let c2 = updateClientCache e c1 in (OkReply (GetAdminView g c2), c2))"
  shows "(\<forall>err. fst h = ErrReply err \<longrightarrow>
            rebuilds (snd h) = rebuilds c \<and> clientCache (snd h) = clientCache c)
       \<and> (\<forall>view. fst h = OkReply view \<longrightarrow>
            rebuilds (snd h) = Suc (rebuilds c) \<and>
            clientCache (snd h) =
              render e ((snd h)\<lparr>clientCache := clientCache c, rebuilds := rebuilds c\<rparr>))
       \<and> (\<forall>err. fst h = ErrReply err \<longleftrightarrow> fst r = Some err)"
proof (cases r)
  case (Pair x c1)
  have f: "rebuilds c1 = rebuilds c" "clientCache c1 = clientCache c"
    using assms(1) Pair by simp_all
  have same: "c1\<lparr>clientCache := clientCache c, rebuilds := rebuilds c\<rparr> = c1"
    unfolding f [symmetric] by simp
  show ?thesis
  proof (cases x)
    case None
    have hh: "h = (OkReply (GetAdminView g (updateClientCache e c1)), updateClientCache e c1)"
      using assms(2) Pair None by (simp add: Let_def)
    have s: "(snd h)\<lparr>clientCache := clientCache c, rebuilds := rebuilds c\<rparr> = c1"
      unfolding hh using same by (simp add: updateClientCache_def)
    show ?thesis
      unfolding s using hh f None Pair by (simp add: updateClientCache_def)
  next
    case (Some err)
    then show ?thesis
      using assms(2) Pair f by simp
  qed
qed

lemma remove_flashGroupMap:
  "flashGroupMap (snd (removeFlashNodeFromFlashGroup e h g c)) = flashGroupMap c"
  by (simp add: remove_result split: option.splits)

lemma runHosts_remove_flashGroupMap:
  "runHosts (\<lambda>h. removeFlashNodeFromFlashGroup e h g) hs c = Some c1 \<Longrightarrow>
   flashGroupMap c1 = flashGroupMap c"
proof (induction hs arbitrary: c)
  case Nil
  then show ?case by simp
next
  case (Cons h hs)
  from Cons.prems obtain c' where r: "removeFlashNodeFromFlashGroup e h g c = (None, c')"
    and rest: "runHosts (\<lambda>h. removeFlashNodeFromFlashGroup e h g) hs c' = Some c1"
    by (auto split: prod.splits option.splits)
  have "flashGroupMap c' = flashGroupMap c"
    using remove_flashGroupMap [of e h g c] r by simp
  with Cons.IH [OF rest] show ?case by simp
qed

section \<open>Lemmas about the slot parser\<close>

lemma splitOn_notin: "sep \<notin> set t \<Longrightarrow> splitOn sep (t @ sep # s) = t # splitOn sep s"
  by (induction t) auto

lemma splitOn_single: "sep \<notin> set t \<Longrightarrow> splitOn sep t = [t]"
  by (induction t) auto

lemma parseUintLoop_bound: "parseUintLoop maxVal n s = Inr v \<Longrightarrow> n \<le> maxVal \<Longrightarrow> v \<le> maxVal"
  by (induction s arbitrary: n) (auto split: if_splits)

lemma ParseUint_bound: "ParseUint tok 32 = Inr v \<Longrightarrow> v < 2 ^ 32"
  using parseUintLoop_bound [of "2 ^ 32 - 1" 0 tok v]
  by (auto simp add: ParseUint_def split: if_splits)

lemma parsedSlots_bound: "x \<in> set (parsedSlots arr) \<Longrightarrow> x < 2 ^ 32"
  by (induction arr) (auto split: sum.splits dest: ParseUint_bound)

lemma slotsLoop_take:
  "length slots \<le> maxCount \<Longrightarrow>
   slotsLoop maxCount slots arr =
     slots @ take (maxCount - length slots) (map word_of_nat (parsedSlots arr))"
proof (induction arr arbitrary: slots)
  case Nil
  show ?case by simp
next
  case (Cons tok arr)
  show ?case
  proof (cases "ParseUint tok 32")
    case (Inl err)
    then show ?thesis using Cons by simp
  next
    case (Inr slot)
    show ?thesis
    proof (cases "length slots \<ge> maxCount")
      case True
      then show ?thesis using Inr Cons.prems by simp
    next
      case False
      then obtain k where k: "maxCount - length slots = Suc k"
        by (cases "maxCount - length slots") auto
      have "length (slots @ [word_of_nat slot :: 32 word]) \<le> maxCount" using False by simp
      moreover have "maxCount - Suc (length slots) = k" using k by simp
      ultimately show ?thesis using Cons.IH [of "slots @ [word_of_nat slot]"] Inr False k by simp
    qed
  qed
qed

lemma unat_slot: "x < 2 ^ 32 \<Longrightarrow> unat (word_of_nat x :: 32 word) = x"
  by (simp add: unat_of_nat)

section \<open>The single-node protocol\<close>



text \<open>
  C2.  A node whose assigned-group field is not the unassigned sentinel cannot be
  assigned: for every target group, the one it belongs to included,
  \<^verbatim>\<open>addFlashNodeToFlashGroup\<close> returns the conflict error and the state is exactly the
  state before the call, so the field, every member map, the log and the count of
  submissions are unchanged.
\<close>

theorem add_assigned_conflict:
  assumes "flashNodeMap c addr = Some p"
    and "FlashGroupID (nodeHeap c p) \<noteq> unusedFlashNodeFlashGroupID e"
  shows "addFlashNodeToFlashGroup e addr g c =
           (Some (ErrCanNotAdd (Addr (nodeHeap c p)) (FlashGroupID (nodeHeap c p))
                    (ID (groupHeap c g))), c)"
  using assms by (simp add: single_defs)

theorem add_assigned_conflict_witness:
  "addFlashNodeToFlashGroup (exEnv True) ''n2'' 0 exCluster =
     (Some (ErrCanNotAdd ''n2'' 7 7), exCluster)
   \<and> addFlashNodeToFlashGroup (exEnv True) ''n2'' 1 exCluster =
     (Some (ErrCanNotAdd ''n2'' 7 8), exCluster)"
  using add_assigned_conflict [of exCluster "''n2''" 2 "exEnv True" 0]
    add_assigned_conflict [of exCluster "''n2''" 2 "exEnv True" 1]
  by (simp add: ex_defs)

text \<open>
  C3.  An unassigned node whose last report is older than the timeout cannot be
  assigned: \<^verbatim>\<open>addFlashNodeToFlashGroup\<close> returns the inactive error, the node's activity
  flag is false afterwards, and apart from that flag and the reading of the clock the
  state is the one before the call: the assigned-group field, the groups, the log and the
  count of submissions are unchanged.
\<close>

theorem add_stale_marks_inactive:
  assumes "flashNodeMap c addr = Some p"
    and "FlashGroupID (nodeHeap c p) = unusedFlashNodeFlashGroupID e"
    and "clock e (clockReads c) - ReportTime (nodeHeap c p) > defaultNodeTimeoutDuration e"
  shows "addFlashNodeToFlashGroup e addr g c =
           (Some (ErrInactive (Addr (nodeHeap c p)) (ReportTime (nodeHeap c p))),
            c\<lparr>nodeHeap := (nodeHeap c)(p := (nodeHeap c p)\<lparr>IsActive := False\<rparr>),
              clockReads := Suc (clockReads c)\<rparr>)
       \<and> IsActive (nodeHeap (snd (addFlashNodeToFlashGroup e addr g c)) p) = False
       \<and> FlashGroupID (nodeHeap (snd (addFlashNodeToFlashGroup e addr g c)) p) =
           FlashGroupID (nodeHeap c p)
       \<and> groupHeap (snd (addFlashNodeToFlashGroup e addr g c)) = groupHeap c
       \<and> raftLog (snd (addFlashNodeToFlashGroup e addr g c)) = raftLog c
       \<and> submitted (snd (addFlashNodeToFlashGroup e addr g c)) = submitted c"
proof -
  have r: "addFlashNodeToFlashGroup e addr g c =
           (Some (ErrInactive (Addr (nodeHeap c p)) (ReportTime (nodeHeap c p))),
            c\<lparr>nodeHeap := (nodeHeap c)(p := (nodeHeap c p)\<lparr>IsActive := False\<rparr>),
              clockReads := Suc (clockReads c)\<rparr>)"
    using assms by (simp add: add_result)
  show ?thesis unfolding r by simp
qed

theorem add_stale_marks_inactive_witness:
  "fst (addFlashNodeToFlashGroup (exEnv True) ''n1'' 0 exCluster) = Some (ErrInactive ''n1'' 100)
   \<and> IsActive (nodeHeap exCluster 1)
   \<and> \<not> IsActive (nodeHeap (snd (addFlashNodeToFlashGroup (exEnv True) ''n1'' 0 exCluster)) 1)
   \<and> submitted (snd (addFlashNodeToFlashGroup (exEnv True) ''n1'' 0 exCluster)) = 1"
proof -
  have h: "flashNodeMap exCluster ''n1'' = Some 1"
    "FlashGroupID (nodeHeap exCluster 1) = unusedFlashNodeFlashGroupID (exEnv True)"
    "clock (exEnv True) (clockReads exCluster) - ReportTime (nodeHeap exCluster 1)
       > defaultNodeTimeoutDuration (exEnv True)"
    by (simp_all add: ex_defs)
  have v: "Addr (nodeHeap exCluster 1) = ''n1''" "ReportTime (nodeHeap exCluster 1) = 100"
    "IsActive (nodeHeap exCluster 1)" "submitted exCluster = 1"
    by (simp_all add: ex_defs)
  note t = add_stale_marks_inactive [OF h, of 0]
  have a: "fst (addFlashNodeToFlashGroup (exEnv True) ''n1'' 0 exCluster) =
      Some (ErrInactive ''n1'' 100)"
    unfolding t [THEN conjunct1] v by simp
  show ?thesis
    using a v(3) t [THEN conjunct2, THEN conjunct1]
      t [THEN conjunct2, THEN conjunct2, THEN conjunct2, THEN conjunct2, THEN conjunct2]
    unfolding v by simp
qed

text \<open>
  C4.  \<^verbatim>\<open>removeFlashNodeFromFlashGroup\<close> on a registered node.  When the node's
  assigned-group field is not the target group's ID, it returns the conflict error and
  the state is exactly the state before the call.  When the field matches and the sink
  commits, the field is the unassigned sentinel, the record with the sentinel is the last
  one of the log and the node's address is deleted from the group's member map.  When the
  field matches and the sink rejects, the sink's error is returned and the state is the
  one before the call up to the count of submissions: the field is the group's ID again
  and the member map is unchanged.
\<close>

theorem remove_conflict_commit_rollback:
  assumes "flashNodeMap c addr = Some p"
  shows "(FlashGroupID (nodeHeap c p) \<noteq> ID (groupHeap c g) \<longrightarrow>
            removeFlashNodeFromFlashGroup e addr g c =
              (Some (ErrNotEqualTarget (Addr (nodeHeap c p)) (FlashGroupID (nodeHeap c p))
                       (ID (groupHeap c g))), c))
       \<and> (FlashGroupID (nodeHeap c p) = ID (groupHeap c g) \<and> raftAccepts e (submitted c) \<longrightarrow>
            removeFlashNodeFromFlashGroup e addr g c =
              (None,
               c\<lparr>nodeHeap := (nodeHeap c)
                     (p := (nodeHeap c p)\<lparr>FlashGroupID := unusedFlashNodeFlashGroupID e\<rparr>),
                 groupHeap := (groupHeap c)
                     (g := (groupHeap c g)\<lparr>flashNodes :=
                             AList.delete (Addr (nodeHeap c p)) (flashNodes (groupHeap c g))\<rparr>),
                 raftLog := raftLog c @
                     [\<lparr>Op = opSyncUpdateFlashNode, K = flashNodePrefix (Addr (nodeHeap c p)),
                       V = NodeV ((nodeHeap c p)\<lparr>FlashGroupID := unusedFlashNodeFlashGroupID e\<rparr>)\<rparr>],
                 submitted := Suc (submitted c)\<rparr>))
       \<and> (FlashGroupID (nodeHeap c p) = ID (groupHeap c g) \<and> \<not> raftAccepts e (submitted c) \<longrightarrow>
            removeFlashNodeFromFlashGroup e addr g c =
              (Some ErrSubmit, c\<lparr>submitted := Suc (submitted c)\<rparr>))"
  using assms by (auto simp add: single_defs)

theorem remove_conflict_commit_rollback_witness:
  "removeFlashNodeFromFlashGroup (exEnv True) ''n0'' 0 exCluster =
     (Some (ErrNotEqualTarget ''n0'' 0 7), exCluster)
   \<and> fst (removeFlashNodeFromFlashGroup (exEnv True) ''n2'' 0 exCluster) = None
   \<and> FlashGroupID (nodeHeap (snd (removeFlashNodeFromFlashGroup (exEnv True) ''n2'' 0 exCluster)) 2) = 0
   \<and> flashNodes (groupHeap (snd (removeFlashNodeFromFlashGroup (exEnv True) ''n2'' 0 exCluster)) 0) = []
   \<and> removeFlashNodeFromFlashGroup (exEnv False) ''n2'' 0 exCluster =
     (Some ErrSubmit, exCluster\<lparr>submitted := 2\<rparr>)
   \<and> FlashGroupID (nodeHeap exCluster 2) = 7
   \<and> flashNodes (groupHeap exCluster 0) = [(''n2'', 2)]"
proof -
  have s: "Suc (submitted exCluster) = 2" by (simp add: ex_defs)
  show ?thesis
    using remove_conflict_commit_rollback [of exCluster "''n0''" 0 0 "exEnv True"]
      remove_conflict_commit_rollback [of exCluster "''n2''" 2 0 "exEnv True"]
      remove_conflict_commit_rollback [of exCluster "''n2''" 2 0 "exEnv False"]
    by (simp add: s) (simp add: ex_defs)
qed

section \<open>Batch operations and handlers\<close>

text \<open>
  C5.  The three batch operations apply the single-node operation to their target hosts
  one after the other, each in the state the one before it left.  The targets are the
  hosts the zone selection returned (zone-based add), the first \<open>max count 1\<close> hosts of
  the group in the zone (zone-based remove, once \<open>count\<close> does not exceed their number),
  and all keys of the member map (group removal).  When every target succeeds, the state
  is the one the last target left (and the group removal goes on to the topology's
  removal).  When the targets are \<open>pre @ h # post\<close>, the hosts of \<open>pre\<close> succeed and \<open>h\<close>
  fails with \<open>err\<close>, the operation returns at once the error that lists \<open>pre\<close>, the whole
  host list and \<open>err\<close>; the state is the one the failing call left, nothing is undone,
  and every host of \<open>pre\<close> is still assigned to the group (still released from it).
\<close>

theorem batch_sequential_first_failure:
  "(\<forall>hosts. zoneSelect e zoneName count excludeHosts c = Inr hosts \<longrightarrow>
      (\<forall>c1. runHosts (\<lambda>h. addFlashNodeToFlashGroup e h g) hosts c = Some c1 \<longrightarrow>
         selectFlashNodesFromZoneAddToFlashGroup e zoneName count excludeHosts g c = (None, c1)) \<and>
      (\<forall>pre h post c1 err c2.
         hosts = pre @ h # post \<and>
         runHosts (\<lambda>h. addFlashNodeToFlashGroup e h g) pre c = Some c1 \<and>
         addFlashNodeToFlashGroup e h g c1 = (Some err, c2) \<longrightarrow>
         selectFlashNodesFromZoneAddToFlashGroup e zoneName count excludeHosts g c =
           (Some (ErrSuccessHost pre hosts err), c2) \<and>
         (\<forall>x \<in> set pre. assignedTo g c2 x)))
   \<and> (count \<le> int (length (getTargetZoneFlashNodeHosts g zoneName c)) \<longrightarrow>
      (\<forall>c1. runHosts (\<lambda>h. removeFlashNodeFromFlashGroup e h g)
              (take (nat (max 1 count)) (getTargetZoneFlashNodeHosts g zoneName c)) c = Some c1 \<longrightarrow>
         removeFlashNodesFromTargetZone e zoneName count g c = (None, c1)) \<and>
      (\<forall>pre h post c1 err c2.
         take (nat (max 1 count)) (getTargetZoneFlashNodeHosts g zoneName c) = pre @ h # post \<and>
         runHosts (\<lambda>h. removeFlashNodeFromFlashGroup e h g) pre c = Some c1 \<and>
         removeFlashNodeFromFlashGroup e h g c1 = (Some err, c2) \<longrightarrow>
         removeFlashNodesFromTargetZone e zoneName count g c =
           (Some (ErrSuccessHost pre (getTargetZoneFlashNodeHosts g zoneName c) err), c2) \<and>
         (\<forall>x \<in> set pre. releasedFrom e g c2 x)))
   \<and> (\<forall>c1. runHosts (\<lambda>h. removeFlashNodeFromFlashGroup e h g)
              (getFlashNodeHosts e g False c) c = Some c1 \<longrightarrow>
         removeFlashGroup e g c = topoRemoveFlashGroup e g c1)
   \<and> (\<forall>pre h post c1 err c2.
         getFlashNodeHosts e g False c = pre @ h # post \<and>
         runHosts (\<lambda>h. removeFlashNodeFromFlashGroup e h g) pre c = Some c1 \<and>
         removeFlashNodeFromFlashGroup e h g c1 = (Some err, c2) \<longrightarrow>
         removeFlashGroup e g c =
           (Some (ErrSuccessHost pre (getFlashNodeHosts e g False c) err), c2) \<and>
         (\<forall>x \<in> set pre. releasedFrom e g c2 x))"
proof -
  have add_kept: "\<forall>x \<in> set pre. assignedTo g c2 x"
    if "runHosts (\<lambda>h. addFlashNodeToFlashGroup e h g) pre c = Some c1"
      and "addFlashNodeToFlashGroup e h g c1 = (Some err, c2)" for pre h c1 err c2
  proof -
    have "\<forall>x \<in> {} \<union> set pre. assignedTo g c1 x"
      by (rule runHosts_add_assigned [OF that(1)]) simp
    moreover have "c2 = snd (addFlashNodeToFlashGroup e h g c1)" using that(2) by simp
    ultimately show ?thesis using assignedTo_add [of g c1 _ e h] by simp
  qed
  have rm_kept: "\<forall>x \<in> set pre. releasedFrom e g c2 x"
    if "runHosts (\<lambda>h. removeFlashNodeFromFlashGroup e h g) pre c = Some c1"
      and "removeFlashNodeFromFlashGroup e h g c1 = (Some err, c2)" for pre h c1 err c2
  proof -
    have "\<forall>x \<in> {} \<union> set pre. releasedFrom e g c1 x"
      by (rule runHosts_remove_released [OF that(1)]) simp
    moreover have "c2 = snd (removeFlashNodeFromFlashGroup e h g c1)" using that(2) by simp
    ultimately show ?thesis using releasedFrom_remove [of e g c1 _ h] by simp
  qed
  have zone_add: "\<forall>hosts. zoneSelect e zoneName count excludeHosts c = Inr hosts \<longrightarrow>
      (\<forall>c1. runHosts (\<lambda>h. addFlashNodeToFlashGroup e h g) hosts c = Some c1 \<longrightarrow>
         selectFlashNodesFromZoneAddToFlashGroup e zoneName count excludeHosts g c = (None, c1)) \<and>
      (\<forall>pre h post c1 err c2.
         hosts = pre @ h # post \<and>
         runHosts (\<lambda>h. addFlashNodeToFlashGroup e h g) pre c = Some c1 \<and>
         addFlashNodeToFlashGroup e h g c1 = (Some err, c2) \<longrightarrow>
         selectFlashNodesFromZoneAddToFlashGroup e zoneName count excludeHosts g c =
           (Some (ErrSuccessHost pre hosts err), c2) \<and>
         (\<forall>x \<in> set pre. assignedTo g c2 x))"
    using addHostsLoop_ok [of e g _ c _ _ "[]"] addHostsLoop_fail [of e g _ c _ _ _ _ _ "[]"]
      add_kept
    by (simp add: selectFlashNodesFromZoneAddToFlashGroup_def) blast
  have zone_rm: "count \<le> int (length (getTargetZoneFlashNodeHosts g zoneName c)) \<longrightarrow>
      (\<forall>c1. runHosts (\<lambda>h. removeFlashNodeFromFlashGroup e h g)
              (take (nat (max 1 count)) (getTargetZoneFlashNodeHosts g zoneName c)) c = Some c1 \<longrightarrow>
         removeFlashNodesFromTargetZone e zoneName count g c = (None, c1)) \<and>
      (\<forall>pre h post c1 err c2.
         take (nat (max 1 count)) (getTargetZoneFlashNodeHosts g zoneName c) = pre @ h # post \<and>
         runHosts (\<lambda>h. removeFlashNodeFromFlashGroup e h g) pre c = Some c1 \<and>
         removeFlashNodeFromFlashGroup e h g c1 = (Some err, c2) \<longrightarrow>
         removeFlashNodesFromTargetZone e zoneName count g c =
           (Some (ErrSuccessHost pre (getTargetZoneFlashNodeHosts g zoneName c) err), c2) \<and>
         (\<forall>x \<in> set pre. releasedFrom e g c2 x))"
    using removeHostsLoop_ok [of e g _ c _ _ "[]"] removeHostsLoop_fail [of e g _ c _ _ _ _ _ "[]"]
      rm_kept
    by (simp add: removeFlashNodesFromTargetZone_def removeZoneLoop_take Let_def) blast
  have group_ok: "\<forall>c1. runHosts (\<lambda>h. removeFlashNodeFromFlashGroup e h g)
              (getFlashNodeHosts e g False c) c = Some c1 \<longrightarrow>
         removeFlashGroup e g c = topoRemoveFlashGroup e g c1"
    using removeHostsLoop_ok [of e g _ c _ _ "[]"]
    by (simp add: removeFlashGroup_def Let_def)
  have group_fail: "\<forall>pre h post c1 err c2.
         getFlashNodeHosts e g False c = pre @ h # post \<and>
         runHosts (\<lambda>h. removeFlashNodeFromFlashGroup e h g) pre c = Some c1 \<and>
         removeFlashNodeFromFlashGroup e h g c1 = (Some err, c2) \<longrightarrow>
         removeFlashGroup e g c =
           (Some (ErrSuccessHost pre (getFlashNodeHosts e g False c) err), c2) \<and>
         (\<forall>x \<in> set pre. releasedFrom e g c2 x)"
    using removeHostsLoop_fail [of e g _ c _ _ _ _ _ "[]"] rm_kept
    by (simp add: removeFlashGroup_def Let_def) blast
  from zone_add zone_rm group_ok group_fail show ?thesis by blast
qed

theorem batch_sequential_first_failure_witness:
  "selectFlashNodesFromZoneAddToFlashGroup (exEnv True) ''z1'' 2 [] 0 exCluster =
     (Some (ErrSuccessHost [''n0''] [''n0'', ''n1''] (ErrInactive ''n1'' 100)),
      snd (addFlashNodeToFlashGroup (exEnv True) ''n1'' 0
             (snd (addFlashNodeToFlashGroup (exEnv True) ''n0'' 0 exCluster))))
   \<and> assignedTo 0
        (snd (addFlashNodeToFlashGroup (exEnv True) ''n1'' 0
               (snd (addFlashNodeToFlashGroup (exEnv True) ''n0'' 0 exCluster)))) ''n0''
   \<and> removeFlashNodesFromTargetZone (exEnv True) ''z1'' 1 0 exCluster =
       (None, snd (removeFlashNodeFromFlashGroup (exEnv True) ''n2'' 0 exCluster))
   \<and> removeFlashGroup (exEnv False) 0 exCluster =
       (Some (ErrSuccessHost [] [''n2''] ErrSubmit), exCluster\<lparr>submitted := 2\<rparr>)"
proof -
  define c1 where "c1 = snd (addFlashNodeToFlashGroup (exEnv True) ''n0'' 0 exCluster)"
  define c2 where "c2 = snd (addFlashNodeToFlashGroup (exEnv True) ''n1'' 0 c1)"
  define c3 where "c3 = snd (removeFlashNodeFromFlashGroup (exEnv True) ''n2'' 0 exCluster)"
  have "fst (addFlashNodeToFlashGroup (exEnv True) ''n0'' 0 exCluster) = None"
    by (simp add: add_result ex_defs)
  then have a0: "addFlashNodeToFlashGroup (exEnv True) ''n0'' 0 exCluster = (None, c1)"
    unfolding c1_def by (simp add: prod_eq_iff)
  have "fst (addFlashNodeToFlashGroup (exEnv True) ''n1'' 0 c1) = Some (ErrInactive ''n1'' 100)"
    unfolding c1_def by (simp add: add_result ex_defs)
  then have a1: "addFlashNodeToFlashGroup (exEnv True) ''n1'' 0 c1 =
      (Some (ErrInactive ''n1'' 100), c2)"
    unfolding c2_def by (simp add: prod_eq_iff)
  have "fst (removeFlashNodeFromFlashGroup (exEnv True) ''n2'' 0 exCluster) = None"
    by (simp add: remove_result ex_defs)
  then have r0: "removeFlashNodeFromFlashGroup (exEnv True) ''n2'' 0 exCluster = (None, c3)"
    unfolding c3_def by (simp add: prod_eq_iff)
  have r1: "removeFlashNodeFromFlashGroup (exEnv False) ''n2'' 0 exCluster =
      (Some ErrSubmit, exCluster\<lparr>submitted := 2\<rparr>)"
    by (simp add: remove_result ex_defs)
  have z: "zoneSelect (exEnv True) ''z1'' 2 [] exCluster = Inr [''n0'', ''n1'']"
    by (simp add: ex_defs)
  have hz: "getTargetZoneFlashNodeHosts 0 ''z1'' exCluster = [''n2'']"
    by (simp add: getTargetZoneFlashNodeHosts_def ex_defs)
  have hg: "getFlashNodeHosts (exEnv False) 0 False exCluster = [''n2'']"
    by (simp add: getFlashNodeHosts_def ex_defs)
  note t1 = batch_sequential_first_failure [where e = "exEnv True" and zoneName = "''z1''"
      and count = 2 and excludeHosts = "[]" and c = exCluster and g = 0]
  note t2 = batch_sequential_first_failure [where e = "exEnv True" and zoneName = "''z1''"
      and count = 1 and excludeHosts = "[]" and c = exCluster and g = 0]
  note t3 = batch_sequential_first_failure [where e = "exEnv False" and zoneName = "''z1''"
      and count = 1 and excludeHosts = "[]" and c = exCluster and g = 0]
  have p1: "[''n0'', ''n1''] = [''n0''] @ ''n1'' # [] \<and>
      runHosts (\<lambda>h. addFlashNodeToFlashGroup (exEnv True) h 0) [''n0''] exCluster = Some c1 \<and>
      addFlashNodeToFlashGroup (exEnv True) ''n1'' 0 c1 = (Some (ErrInactive ''n1'' 100), c2)"
    using a0 a1 by simp
  have w1: "selectFlashNodesFromZoneAddToFlashGroup (exEnv True) ''z1'' 2 [] 0 exCluster =
      (Some (ErrSuccessHost [''n0''] [''n0'', ''n1''] (ErrInactive ''n1'' 100)), c2) \<and>
      (\<forall>x \<in> set [''n0'']. assignedTo 0 c2 x)"
    by (rule t1 [THEN conjunct1, rule_format, OF z, THEN conjunct2, rule_format, OF p1])
  have p2: "runHosts (\<lambda>h. removeFlashNodeFromFlashGroup (exEnv True) h 0)
      (take (nat (max 1 1)) (getTargetZoneFlashNodeHosts 0 ''z1'' exCluster)) exCluster = Some c3"
    unfolding hz using r0 by simp
  have l2: "1 \<le> int (length (getTargetZoneFlashNodeHosts 0 ''z1'' exCluster))"
    unfolding hz by simp
  have w2: "removeFlashNodesFromTargetZone (exEnv True) ''z1'' 1 0 exCluster = (None, c3)"
    by (rule t2 [THEN conjunct2, THEN conjunct1, rule_format, OF l2, THEN conjunct1,
          rule_format, OF p2])
  have p3: "getFlashNodeHosts (exEnv False) 0 False exCluster = [] @ ''n2'' # [] \<and>
      runHosts (\<lambda>h. removeFlashNodeFromFlashGroup (exEnv False) h 0) [] exCluster =
        Some exCluster \<and>
      removeFlashNodeFromFlashGroup (exEnv False) ''n2'' 0 exCluster =
        (Some ErrSubmit, exCluster\<lparr>submitted := 2\<rparr>)"
    using r1 hg by simp
  have w3: "removeFlashGroup (exEnv False) 0 exCluster =
      (Some (ErrSuccessHost [] (getFlashNodeHosts (exEnv False) 0 False exCluster) ErrSubmit),
       exCluster\<lparr>submitted := 2\<rparr>)"
    by (rule t3 [THEN conjunct2, THEN conjunct2, THEN conjunct2, rule_format, OF p3,
          THEN conjunct1])
  show ?thesis
    using w1 w2 w3 unfolding hg c1_def c2_def c3_def by simp
qed

text \<open>
  C6.  What the two node handlers do with the client cache, for every request.  When
  the reply is an error, the cache has not been rebuilt: the number of rebuilds and the
  snapshot are the ones before the request.  When the reply is the admin view, the cache
  has been rebuilt once, from the state the operation left.  And for a request that names
  a registered group the reply is an error exactly when the single-node or batch
  operation returned it, so a batch that failed after it had committed some hosts ends
  without a rebuild.
\<close>

theorem node_handlers_rebuild_on_success_only:
  "(\<forall>err. fst (flashGroupAddFlashNode e args c) = ErrReply err \<longrightarrow>
      rebuilds (snd (flashGroupAddFlashNode e args c)) = rebuilds c \<and>
      clientCache (snd (flashGroupAddFlashNode e args c)) = clientCache c)
   \<and> (\<forall>view. fst (flashGroupAddFlashNode e args c) = OkReply view \<longrightarrow>
      rebuilds (snd (flashGroupAddFlashNode e args c)) = Suc (rebuilds c) \<and>
      clientCache (snd (flashGroupAddFlashNode e args c)) =
        render e ((snd (flashGroupAddFlashNode e args c))
                    \<lparr>clientCache := clientCache c, rebuilds := rebuilds c\<rparr>))
   \<and> (\<forall>gid addr zoneName count g err.
        args = Inr (gid, addr, zoneName, count) \<and> flashGroupMap c gid = Some g \<longrightarrow>
        (fst (flashGroupAddFlashNode e args c) = ErrReply err \<longleftrightarrow>
         fst (if addr \<noteq> [] then addFlashNodeToFlashGroup e addr g c
              else selectFlashNodesFromZoneAddToFlashGroup e zoneName count [] g c) = Some err))
   \<and> (\<forall>err. fst (flashGroupRemoveFlashNode e args c) = ErrReply err \<longrightarrow>
      rebuilds (snd (flashGroupRemoveFlashNode e args c)) = rebuilds c \<and>
      clientCache (snd (flashGroupRemoveFlashNode e args c)) = clientCache c)
   \<and> (\<forall>view. fst (flashGroupRemoveFlashNode e args c) = OkReply view \<longrightarrow>
      rebuilds (snd (flashGroupRemoveFlashNode e args c)) = Suc (rebuilds c) \<and>
      clientCache (snd (flashGroupRemoveFlashNode e args c)) =
        render e ((snd (flashGroupRemoveFlashNode e args c))
                    \<lparr>clientCache := clientCache c, rebuilds := rebuilds c\<rparr>))
   \<and> (\<forall>gid addr zoneName count g err.
        args = Inr (gid, addr, zoneName, count) \<and> flashGroupMap c gid = Some g \<longrightarrow>
        (fst (flashGroupRemoveFlashNode e args c) = ErrReply err \<longleftrightarrow>
         fst (if addr \<noteq> [] then removeFlashNodeFromFlashGroup e addr g c
              else removeFlashNodesFromTargetZone e zoneName count g c) = Some err))"
proof (cases args)
  case (Inl err)
  then show ?thesis
    by (simp add: flashGroupAddFlashNode_def flashGroupRemoveFlashNode_def)
next
  case (Inr a)
  obtain gid addr zoneName count where a: "a = (gid, addr, zoneName, count)"
    by (cases a) auto
  show ?thesis
  proof (cases "flashGroupMap c gid")
    case None
    then show ?thesis
      using Inr a
      by (simp add: flashGroupAddFlashNode_def flashGroupRemoveFlashNode_def getFlashGroup_def)
  next
    case (Some g)
    let ?ra = "if addr \<noteq> [] then addFlashNodeToFlashGroup e addr g c
               else selectFlashNodesFromZoneAddToFlashGroup e zoneName count [] g c"
    let ?rr = "if addr \<noteq> [] then removeFlashNodeFromFlashGroup e addr g c
               else removeFlashNodesFromTargetZone e zoneName count g c"
    have fa: "rebuilds (snd ?ra) = rebuilds c \<and> clientCache (snd ?ra) = clientCache c"
      using add_cache_frame [of e addr g c] zone_add_cache_frame [of e zoneName count "[]" g c]
      by simp
    have fr: "rebuilds (snd ?rr) = rebuilds c \<and> clientCache (snd ?rr) = clientCache c"
      using remove_cache_frame [of e addr g c] zone_remove_cache_frame [of e zoneName count g c]
      by simp
    have ha: "flashGroupAddFlashNode e args c =
        (case ?ra of (Some err, c1) \<Rightarrow> (ErrReply err, c1)
         | (None, c1) \<Rightarrow> let c2 = updateClientCache e c1 in (OkReply (GetAdminView g c2), c2))"
      using Inr a Some by (simp add: flashGroupAddFlashNode_def getFlashGroup_def)
    have hr: "flashGroupRemoveFlashNode e args c =
        (case ?rr of (Some err, c1) \<Rightarrow> (ErrReply err, c1)
         | (None, c1) \<Rightarrow> let c2 = updateClientCache e c1 in (OkReply (GetAdminView g c2), c2))"
      using Inr a Some by (simp add: flashGroupRemoveFlashNode_def getFlashGroup_def)
    note A = handler_cases [OF fa ha]
    note R = handler_cases [OF fr hr]
    show ?thesis
      using A R Inr a Some by simp
  qed
qed


theorem node_handlers_rebuild_on_success_only_witness:
  "fst (flashGroupAddFlashNode (exEnv True) (Inr (7, [], ''z1'', 2)) exCluster) =
     ErrReply (ErrSuccessHost [''n0''] [''n0'', ''n1''] (ErrInactive ''n1'' 100))
   \<and> rebuilds (snd (flashGroupAddFlashNode (exEnv True) (Inr (7, [], ''z1'', 2)) exCluster)) = 0
   \<and> clientCache (snd (flashGroupAddFlashNode (exEnv True) (Inr (7, [], ''z1'', 2)) exCluster)) =
       [1, 2, 3]
   \<and> rebuilds (snd (flashGroupAddFlashNode (exEnv True) (Inr (7, ''n0'', [], 0)) exCluster)) = 1
   \<and> rebuilds (snd (flashGroupRemoveFlashNode (exEnv True) (Inr (7, ''n2'', [], 0)) exCluster)) = 1
   \<and> rebuilds (snd (flashGroupRemoveFlashNode (exEnv True) (Inr (7, ''n0'', [], 0)) exCluster)) = 0"
proof -
  have v: "rebuilds exCluster = 0" "clientCache exCluster = [1, 2, 3]"
    "flashGroupMap exCluster 7 = Some 0"
    by (simp_all add: ex_defs)
  have z: "fst (selectFlashNodesFromZoneAddToFlashGroup (exEnv True) ''z1'' 2 [] 0 exCluster) =
      Some (ErrSuccessHost [''n0''] [''n0'', ''n1''] (ErrInactive ''n1'' 100))"
    by (simp add: selectFlashNodesFromZoneAddToFlashGroup_def add_result ex_defs)
  note t1 = node_handlers_rebuild_on_success_only
    [where e = "exEnv True" and args = "Inr (7, [], ''z1'', 2)" and c = exCluster]
  have e1: "fst (flashGroupAddFlashNode (exEnv True) (Inr (7, [], ''z1'', 2)) exCluster) =
      ErrReply (ErrSuccessHost [''n0''] [''n0'', ''n1''] (ErrInactive ''n1'' 100))"
    using t1 [THEN conjunct2, THEN conjunct2, THEN conjunct1, rule_format,
        of 7 "[]" "''z1''" 2 0] v(3) z
    by simp
  note a1 = t1 [THEN conjunct1, rule_format, OF e1, unfolded v]
  have o2: "fst (flashGroupAddFlashNode (exEnv True) (Inr (7, ''n0'', [], 0)) exCluster) =
      OkReply (GetAdminView 0 (snd (flashGroupAddFlashNode (exEnv True) (Inr (7, ''n0'', [], 0))
        exCluster)))"
    by (simp add: flashGroupAddFlashNode_def getFlashGroup_def add_result ex_defs Let_def)
  note a2 = node_handlers_rebuild_on_success_only
    [where e = "exEnv True" and args = "Inr (7, ''n0'', [], 0)" and c = exCluster,
      THEN conjunct2, THEN conjunct1, rule_format, OF o2, THEN conjunct1, unfolded v]
  have o3: "fst (flashGroupRemoveFlashNode (exEnv True) (Inr (7, ''n2'', [], 0)) exCluster) =
      OkReply (GetAdminView 0 (snd (flashGroupRemoveFlashNode (exEnv True) (Inr (7, ''n2'', [], 0))
        exCluster)))"
    by (simp add: flashGroupRemoveFlashNode_def getFlashGroup_def remove_result ex_defs Let_def)
  note a3 = node_handlers_rebuild_on_success_only
    [where e = "exEnv True" and args = "Inr (7, ''n2'', [], 0)" and c = exCluster,
      THEN conjunct2, THEN conjunct2, THEN conjunct2, THEN conjunct2, THEN conjunct1,
      rule_format, OF o3, THEN conjunct1, unfolded v]
  have e4: "fst (flashGroupRemoveFlashNode (exEnv True) (Inr (7, ''n0'', [], 0)) exCluster) =
      ErrReply (ErrNotEqualTarget ''n0'' 0 7)"
    by (simp add: flashGroupRemoveFlashNode_def getFlashGroup_def remove_result ex_defs)
  note a4 = node_handlers_rebuild_on_success_only
    [where e = "exEnv True" and args = "Inr (7, ''n0'', [], 0)" and c = exCluster,
      THEN conjunct2, THEN conjunct2, THEN conjunct2, THEN conjunct1,
      rule_format, OF e4, THEN conjunct1, unfolded v]
  show ?thesis using e1 a1 a2 a3 a4 by simp
qed

text \<open>
  C6 as the specification words it does not hold: the zone-based add below commits the host \<open>n0\<close> (it
  was not assigned before, it is assigned and persisted afterwards), fails on the host
  \<open>n1\<close>, and the handler replies with the error without rebuilding the cache.
\<close>

theorem partial_failure_skips_rebuild:
  "fst (flashGroupAddFlashNode (exEnv True) (Inr (7, [], ''z1'', 2)) exCluster) =
     ErrReply (ErrSuccessHost [''n0''] [''n0'', ''n1''] (ErrInactive ''n1'' 100))
   \<and> \<not> assignedTo 0 exCluster ''n0''
   \<and> assignedTo 0 (snd (flashGroupAddFlashNode (exEnv True) (Inr (7, [], ''z1'', 2)) exCluster)) ''n0''
   \<and> persisted (snd (flashGroupAddFlashNode (exEnv True) (Inr (7, [], ''z1'', 2)) exCluster)) ''n0'' 7
   \<and> rebuilds (snd (flashGroupAddFlashNode (exEnv True) (Inr (7, [], ''z1'', 2)) exCluster)) =
       rebuilds exCluster
   \<and> clientCache (snd (flashGroupAddFlashNode (exEnv True) (Inr (7, [], ''z1'', 2)) exCluster)) =
       clientCache exCluster"
  by (simp add: flashGroupAddFlashNode_def getFlashGroup_def
      selectFlashNodesFromZoneAddToFlashGroup_def add_result assignedTo_def persisted_def ex_defs)

text \<open>
  C7.  \<^verbatim>\<open>setFlashGroup\<close> on a registered group.  When the requested status is the one the
  group has, nothing is submitted and nothing is rebuilt: the reply is the admin view and
  the state is exactly the state before the request.  When the status differs and the
  sink rejects the group-update record, the reply is the sink's error, the old status is
  back (the admin view taken afterwards shows it) and the cache is not rebuilt.  When the
  status differs and the sink commits, the group has the new status, the log ends with
  the group-update record that carries it, and the cache has been rebuilt once.
\<close>

theorem setFlashGroup_persists_only_a_change:
  assumes "flashGroupMap c gid = Some g"
  shows "(Status (groupHeap c g) = argConvertFlashGroupStatus active \<longrightarrow>
            setFlashGroup e (Inr (gid, active)) c = (OkReply (GetAdminView g c), c))
       \<and> (Status (groupHeap c g) \<noteq> argConvertFlashGroupStatus active \<and>
          \<not> raftAccepts e (submitted c) \<longrightarrow>
            setFlashGroup e (Inr (gid, active)) c =
              (ErrReply ErrSubmit, c\<lparr>submitted := Suc (submitted c)\<rparr>) \<and>
            Status (GetAdminView g (snd (setFlashGroup e (Inr (gid, active)) c))) =
              Status (groupHeap c g) \<and>
            rebuilds (snd (setFlashGroup e (Inr (gid, active)) c)) = rebuilds c)
       \<and> (Status (groupHeap c g) \<noteq> argConvertFlashGroupStatus active \<and>
          raftAccepts e (submitted c) \<longrightarrow>
            setFlashGroup e (Inr (gid, active)) c =
              (OkReply (GetAdminView g (snd (setFlashGroup e (Inr (gid, active)) c))),
               updateClientCache e
                 (c\<lparr>groupHeap := (groupHeap c)
                       (g := (groupHeap c g)\<lparr>Status := argConvertFlashGroupStatus active\<rparr>),
                    raftLog := raftLog c @
                       [\<lparr>Op = opSyncUpdateFlashGroup, K = flashGroupPrefix (ID (groupHeap c g)),
                         V = GroupV \<lparr>ID = ID (groupHeap c g), Slots = Slots (groupHeap c g),
                                     Status = argConvertFlashGroupStatus active\<rparr>\<rparr>],
                    submitted := Suc (submitted c)\<rparr>)) \<and>
            Status (GetAdminView g (snd (setFlashGroup e (Inr (gid, active)) c))) =
              argConvertFlashGroupStatus active \<and>
            rebuilds (snd (setFlashGroup e (Inr (gid, active)) c)) = Suc (rebuilds c))"
proof (intro conjI impI)
  assume "Status (groupHeap c g) = argConvertFlashGroupStatus active"
  then show "setFlashGroup e (Inr (gid, active)) c = (OkReply (GetAdminView g c), c)"
    using assms by (simp add: setFlashGroup_def getFlashGroup_def setGroup_def Let_def)
next
  assume h: "Status (groupHeap c g) \<noteq> argConvertFlashGroupStatus active \<and>
      \<not> raftAccepts e (submitted c)"
  then show r: "setFlashGroup e (Inr (gid, active)) c =
      (ErrReply ErrSubmit, c\<lparr>submitted := Suc (submitted c)\<rparr>)"
    using assms
    by (simp add: setFlashGroup_def getFlashGroup_def setGroup_def Let_def
        syncUpdateFlashGroup_def syncPutFlashGroupInfo_def submit_def)
  show "Status (GetAdminView g (snd (setFlashGroup e (Inr (gid, active)) c))) =
      Status (groupHeap c g)"
    unfolding r by (simp add: GetAdminView_def Let_def)
  show "rebuilds (snd (setFlashGroup e (Inr (gid, active)) c)) = rebuilds c"
    unfolding r by simp
next
  assume h: "Status (groupHeap c g) \<noteq> argConvertFlashGroupStatus active \<and>
      raftAccepts e (submitted c)"
  have s: "snd (setFlashGroup e (Inr (gid, active)) c) =
      updateClientCache e
        (c\<lparr>groupHeap := (groupHeap c)
              (g := (groupHeap c g)\<lparr>Status := argConvertFlashGroupStatus active\<rparr>),
           raftLog := raftLog c @
              [\<lparr>Op = opSyncUpdateFlashGroup, K = flashGroupPrefix (ID (groupHeap c g)),
                V = GroupV \<lparr>ID = ID (groupHeap c g), Slots = Slots (groupHeap c g),
                            Status = argConvertFlashGroupStatus active\<rparr>\<rparr>],
           submitted := Suc (submitted c)\<rparr>)"
    using assms h
    by (simp add: setFlashGroup_def getFlashGroup_def setGroup_def Let_def
        syncUpdateFlashGroup_def syncPutFlashGroupInfo_def submit_def)
  have f: "fst (setFlashGroup e (Inr (gid, active)) c) =
      OkReply (GetAdminView g (snd (setFlashGroup e (Inr (gid, active)) c)))"
    using assms h
    by (simp add: setFlashGroup_def getFlashGroup_def setGroup_def Let_def
        syncUpdateFlashGroup_def syncPutFlashGroupInfo_def submit_def)
  show "setFlashGroup e (Inr (gid, active)) c =
      (OkReply (GetAdminView g (snd (setFlashGroup e (Inr (gid, active)) c))),
       updateClientCache e
         (c\<lparr>groupHeap := (groupHeap c)
               (g := (groupHeap c g)\<lparr>Status := argConvertFlashGroupStatus active\<rparr>),
            raftLog := raftLog c @
               [\<lparr>Op = opSyncUpdateFlashGroup, K = flashGroupPrefix (ID (groupHeap c g)),
                 V = GroupV \<lparr>ID = ID (groupHeap c g), Slots = Slots (groupHeap c g),
                             Status = argConvertFlashGroupStatus active\<rparr>\<rparr>],
            submitted := Suc (submitted c)\<rparr>))"
    using s f by (simp add: prod_eq_iff)
  show "Status (GetAdminView g (snd (setFlashGroup e (Inr (gid, active)) c))) =
      argConvertFlashGroupStatus active"
    unfolding s by (simp add: GetAdminView_def updateClientCache_def Let_def)
  show "rebuilds (snd (setFlashGroup e (Inr (gid, active)) c)) = Suc (rebuilds c)"
    unfolding s by (simp add: updateClientCache_def)
qed

theorem setFlashGroup_persists_only_a_change_witness:
  "setFlashGroup (exEnv False) (Inr (7, True)) exCluster =
     (ErrReply ErrSubmit, exCluster\<lparr>submitted := 2\<rparr>)
   \<and> Status (GetAdminView 0 (snd (setFlashGroup (exEnv False) (Inr (7, True)) exCluster))) =
       FlashGroupStatus_Inactive
   \<and> Status (GetAdminView 0 (snd (setFlashGroup (exEnv True) (Inr (7, True)) exCluster))) =
       FlashGroupStatus_Active
   \<and> rebuilds (snd (setFlashGroup (exEnv True) (Inr (7, True)) exCluster)) = 1
   \<and> rebuilds (snd (setFlashGroup (exEnv True) (Inr (7, False)) exCluster)) = 0"
proof -
  have m: "flashGroupMap exCluster 7 = Some 0" by (simp add: ex_defs)
  have v: "Status (groupHeap exCluster 0) = FlashGroupStatus_Inactive"
    "argConvertFlashGroupStatus True = FlashGroupStatus_Active"
    "argConvertFlashGroupStatus False = FlashGroupStatus_Inactive"
    "rebuilds exCluster = 0" "Suc (submitted exCluster) = 2"
    by (simp_all add: ex_defs argConvertFlashGroupStatus_def)
  have rj: "Status (groupHeap exCluster 0) \<noteq> argConvertFlashGroupStatus True \<and>
      \<not> raftAccepts (exEnv False) (submitted exCluster)"
    by (simp add: ex_defs argConvertFlashGroupStatus_def)
  have ac: "Status (groupHeap exCluster 0) \<noteq> argConvertFlashGroupStatus True \<and>
      raftAccepts (exEnv True) (submitted exCluster)"
    by (simp add: ex_defs argConvertFlashGroupStatus_def)
  have sm: "Status (groupHeap exCluster 0) = argConvertFlashGroupStatus False"
    by (simp add: ex_defs argConvertFlashGroupStatus_def)
  note a = setFlashGroup_persists_only_a_change [OF m, of True "exEnv False",
      THEN conjunct2, THEN conjunct1, rule_format, OF rj, unfolded v]
  note b = setFlashGroup_persists_only_a_change [OF m, of True "exEnv True",
      THEN conjunct2, THEN conjunct2, rule_format, OF ac, THEN conjunct2, unfolded v]
  note d = setFlashGroup_persists_only_a_change [OF m, of False "exEnv True",
      THEN conjunct1, rule_format, OF sm]
  have d': "rebuilds (snd (setFlashGroup (exEnv True) (Inr (7, False)) exCluster)) = 0"
    unfolding d by (simp add: v)
  have b': "rebuilds (snd (setFlashGroup (exEnv True) (Inr (7, True)) exCluster)) = 1"
    using b [THEN conjunct2] by simp
  show ?thesis
    using a [THEN conjunct1] a [THEN conjunct2, THEN conjunct1] b [THEN conjunct1] b' d'
    by (intro conjI)
qed

text \<open>
  C7 as the specification words it does not hold: the sink below rejects every submission, yet setting
  the status the group already has succeeds, because no group-update record is
  submitted; the state is the one before the request.
\<close>

theorem setFlashGroup_same_status_submits_nothing:
  "\<not> raftAccepts (exEnv False) (submitted exCluster)
   \<and> setFlashGroup (exEnv False) (Inr (7, False)) exCluster =
       (OkReply (GetAdminView 0 exCluster), exCluster)"
proof -
  have m: "flashGroupMap exCluster 7 = Some 0"
    and st: "Status (groupHeap exCluster 0) = FlashGroupStatus_Inactive"
    and rj: "\<not> raftAccepts (exEnv False) (submitted exCluster)"
    by (simp_all add: ex_defs)
  have "setFlashGroup (exEnv False) (Inr (7, False)) exCluster =
      (OkReply (GetAdminView 0 exCluster), exCluster)"
    using m st
    by (simp add: setFlashGroup_def getFlashGroup_def setGroup_def Let_def
        argConvertFlashGroupStatus_def)
  with rj show ?thesis by simp
qed

text \<open>
  C8.  \<^verbatim>\<open>Cluster.removeFlashGroup\<close> does not ask for an empty group: it evicts the members
  itself.  When the eviction of every key of the member map succeeds, the result is the
  result of the topology's removal on the state the evictions left, and in that state the
  member map is empty provided the registry keys the nodes by their addresses.  When the
  evictions of \<open>pre\<close> succeed and the next one fails, the error that lists \<open>pre\<close> is
  returned, the topology's removal is not called and the group registry is as before.  On
  a group without members the result is the result of the topology's removal.
\<close>

theorem removeFlashGroup_evicts_then_deletes:
  "(\<forall>c1. runHosts (\<lambda>h. removeFlashNodeFromFlashGroup e h g)
            (getFlashNodeHosts e g False c) c = Some c1 \<longrightarrow>
       removeFlashGroup e g c = topoRemoveFlashGroup e g c1 \<and>
       (registryOK c \<longrightarrow> flashNodes (groupHeap c1 g) = []))
   \<and> (\<forall>pre h post c1 err c2.
         getFlashNodeHosts e g False c = pre @ h # post \<and>
         runHosts (\<lambda>h. removeFlashNodeFromFlashGroup e h g) pre c = Some c1 \<and>
         removeFlashNodeFromFlashGroup e h g c1 = (Some err, c2) \<longrightarrow>
         removeFlashGroup e g c =
           (Some (ErrSuccessHost pre (getFlashNodeHosts e g False c) err), c2) \<and>
         flashGroupMap c2 = flashGroupMap c)
   \<and> (flashNodes (groupHeap c g) = [] \<longrightarrow>
         removeFlashGroup e g c = topoRemoveFlashGroup e g c)"
proof (intro conjI allI impI)
  fix c1
  assume r: "runHosts (\<lambda>h. removeFlashNodeFromFlashGroup e h g)
      (getFlashNodeHosts e g False c) c = Some c1"
  show "removeFlashGroup e g c = topoRemoveFlashGroup e g c1"
    using removeHostsLoop_ok [OF r, of "getFlashNodeHosts e g False c" "[]"]
    by (simp add: removeFlashGroup_def Let_def)
  show "flashNodes (groupHeap c1 g) = []" if "registryOK c"
    using r that by (rule evict_all_empty)
next
  fix pre h post c1 err c2
  assume a: "getFlashNodeHosts e g False c = pre @ h # post \<and>
      runHosts (\<lambda>h. removeFlashNodeFromFlashGroup e h g) pre c = Some c1 \<and>
      removeFlashNodeFromFlashGroup e h g c1 = (Some err, c2)"
  from a have a2: "runHosts (\<lambda>h. removeFlashNodeFromFlashGroup e h g) pre c = Some c1"
    and a3: "removeFlashNodeFromFlashGroup e h g c1 = (Some err, c2)"
    by simp_all
  have l: "removeHostsLoop e g (getFlashNodeHosts e g False c) [] (pre @ h # post) c =
      (Some (ErrSuccessHost ([] @ pre) (getFlashNodeHosts e g False c) err), c2)"
    by (rule removeHostsLoop_fail [OF a2 a3])
  show "removeFlashGroup e g c =
      (Some (ErrSuccessHost pre (getFlashNodeHosts e g False c) err), c2)"
    using l a by (simp add: removeFlashGroup_def Let_def)
  have "flashGroupMap c1 = flashGroupMap c"
    by (rule runHosts_remove_flashGroupMap [OF a2])
  moreover have "flashGroupMap c2 = flashGroupMap c1"
    using remove_flashGroupMap [of e h g c1] a3 by simp
  ultimately show "flashGroupMap c2 = flashGroupMap c" by simp
next
  assume "flashNodes (groupHeap c g) = []"
  then show "removeFlashGroup e g c = topoRemoveFlashGroup e g c"
    by (simp add: removeFlashGroup_def getFlashNodeHosts_def Let_def)
qed

theorem removeFlashGroup_evicts_then_deletes_witness:
  "registryOK exCluster
   \<and> removeFlashGroup (exEnv True) 0 exCluster =
       topoRemoveSpec (exEnv0 True) 0
         (snd (removeFlashNodeFromFlashGroup (exEnv True) ''n2'' 0 exCluster))
   \<and> flashNodes (groupHeap (snd (removeFlashNodeFromFlashGroup (exEnv True) ''n2'' 0 exCluster)) 0) = []
   \<and> removeFlashGroup (exEnv False) 0 exCluster =
       (Some (ErrSuccessHost [] [''n2''] ErrSubmit), exCluster\<lparr>submitted := 2\<rparr>)
   \<and> removeFlashGroup (exEnv True) 1 exCluster = topoRemoveSpec (exEnv0 True) 1 exCluster"
proof -
  define c3 where "c3 = snd (removeFlashNodeFromFlashGroup (exEnv True) ''n2'' 0 exCluster)"
  have ok: "registryOK exCluster"
    by (simp add: registryOK_def ex_defs)
  have hg: "getFlashNodeHosts (exEnv ok') 0 False exCluster = [''n2'']" for ok'
    by (simp add: getFlashNodeHosts_def ex_defs)
  have tr: "topoRemoveFlashGroup (exEnv True) = topoRemoveSpec (exEnv0 True)"
    by (simp add: exEnv_def)
  have "fst (removeFlashNodeFromFlashGroup (exEnv True) ''n2'' 0 exCluster) = None"
    by (simp add: remove_result ex_defs)
  then have r0: "runHosts (\<lambda>h. removeFlashNodeFromFlashGroup (exEnv True) h 0)
      (getFlashNodeHosts (exEnv True) 0 False exCluster) exCluster = Some c3"
    unfolding hg c3_def by (simp add: prod_eq_iff split: prod.splits)
  have r1: "getFlashNodeHosts (exEnv False) 0 False exCluster = [] @ ''n2'' # [] \<and>
      runHosts (\<lambda>h. removeFlashNodeFromFlashGroup (exEnv False) h 0) [] exCluster =
        Some exCluster \<and>
      removeFlashNodeFromFlashGroup (exEnv False) ''n2'' 0 exCluster =
        (Some ErrSubmit, exCluster\<lparr>submitted := 2\<rparr>)"
    unfolding hg by (simp add: remove_result ex_defs)
  have em: "flashNodes (groupHeap exCluster 1) = []"
    by (simp add: ex_defs)
  note a = removeFlashGroup_evicts_then_deletes [of "exEnv True" 0 exCluster,
      THEN conjunct1, rule_format, OF r0]
  note b = removeFlashGroup_evicts_then_deletes [of "exEnv False" 0 exCluster,
      THEN conjunct2, THEN conjunct1, rule_format, OF r1, THEN conjunct1, unfolded hg]
  note d = removeFlashGroup_evicts_then_deletes [of "exEnv True" 1 exCluster,
      THEN conjunct2, THEN conjunct2, rule_format, OF em]
  have a2: "flashNodes (groupHeap c3 0) = []"
    using a [THEN conjunct2] ok by simp
  show ?thesis
    using ok a [THEN conjunct1] a2 b d unfolding tr c3_def by (intro conjI)
qed

text \<open>
  C8 as the specification words it does not hold: the group below has the member \<open>n2\<close>, yet its removal
  succeeds; afterwards the node's assigned-group field is the sentinel instead of 7, the
  member map is empty and the group is gone from the registry.  (The topology's removal
  of the example environment follows the spec and would refuse a group with members.)
\<close>

theorem removeFlashGroup_nonempty_succeeds:
  "flashNodes (groupHeap exCluster 0) = [(''n2'', 2)]
   \<and> FlashGroupID (nodeHeap exCluster 2) = 7
   \<and> flashGroupMap exCluster 7 = Some 0
   \<and> fst (removeFlashGroup (exEnv True) 0 exCluster) = None
   \<and> FlashGroupID (nodeHeap (snd (removeFlashGroup (exEnv True) 0 exCluster)) 2) = 0
   \<and> flashNodes (groupHeap (snd (removeFlashGroup (exEnv True) 0 exCluster)) 0) = []
   \<and> flashGroupMap (snd (removeFlashGroup (exEnv True) 0 exCluster)) 7 = None"
  by (simp add: removeFlashGroup_def getFlashNodeHosts_def remove_result submit_def ex_defs)

section \<open>The serving toggle and the slot parser\<close>

text \<open>
  C9.  Provided the empty response \<^verbatim>\<open>clientEmpty\<close> is not the empty byte slice: after
  serving has been turned off the client query is answered with \<^verbatim>\<open>clientEmpty\<close>, whatever
  the snapshot holds, while the snapshot and the number of rebuilds are as before; after
  serving has then been turned on again the query is answered from that same snapshot
  (with the error of the handler when the snapshot is empty), again with no rebuild.
\<close>

theorem turn_off_hides_snapshot_turn_on_restores:
  assumes "clientEmpty c \<noteq> []"
  shows "clientFlashGroups (snd (turnFlashGroup (Inr False) c)) = OkReply (clientEmpty c)
       \<and> clientCache (snd (turnFlashGroup (Inr False) c)) = clientCache c
       \<and> rebuilds (snd (turnFlashGroup (Inr False) c)) = rebuilds c
       \<and> getClientResponse (snd (turnFlashGroup (Inr True) (snd (turnFlashGroup (Inr False) c)))) =
           clientCache c
       \<and> clientFlashGroups (snd (turnFlashGroup (Inr True) (snd (turnFlashGroup (Inr False) c)))) =
           (if clientCache c = [] then ErrReply ErrCacheEmpty else OkReply (clientCache c))
       \<and> clientCache (snd (turnFlashGroup (Inr True) (snd (turnFlashGroup (Inr False) c)))) =
           clientCache c
       \<and> rebuilds (snd (turnFlashGroup (Inr True) (snd (turnFlashGroup (Inr False) c)))) =
           rebuilds c"
  using assms
  by (simp add: turnFlashGroup_def clientFlashGroups_def getClientResponse_def)

theorem turn_off_hides_snapshot_turn_on_restores_witness:
  "clientFlashGroups exCluster = OkReply [1, 2, 3]
   \<and> clientFlashGroups (snd (turnFlashGroup (Inr False) exCluster)) = OkReply [123, 125]
   \<and> clientCache (snd (turnFlashGroup (Inr False) exCluster)) = [1, 2, 3]
   \<and> clientFlashGroups (snd (turnFlashGroup (Inr True) (snd (turnFlashGroup (Inr False) exCluster)))) =
       OkReply [1, 2, 3]
   \<and> rebuilds (snd (turnFlashGroup (Inr True) (snd (turnFlashGroup (Inr False) exCluster)))) = 0"
proof -
  have h: "clientEmpty exCluster \<noteq> []" by (simp add: ex_defs)
  have v: "clientEmpty exCluster = [123, 125]" "clientCache exCluster = [1, 2, 3]"
    "rebuilds exCluster = 0" "clientOff exCluster = []"
    by (simp_all add: ex_defs)
  have a: "clientFlashGroups exCluster = OkReply [1, 2, 3]"
    by (simp add: clientFlashGroups_def getClientResponse_def v)
  show ?thesis
    using turn_off_hides_snapshot_turn_on_restores [OF h] a unfolding v by simp
qed

text \<open>
  C10.  \<^verbatim>\<open>getSetSlots\<close> has no failing branch: for every request string it returns the
  values of the comma-separated tokens that \<^verbatim>\<open>ParseUint\<close> accepts as 32-bit decimals, in
  their order, cut after the per-group maximum; the tokens it rejects are skipped.  The
  values are kept as parsed (the conversion to 32 bits loses nothing), the list has at
  most the maximum number of entries, and a value that occurs twice in the request occurs
  twice in the list.
\<close>

theorem getSetSlots_skips_caps_keeps_duplicates:
  "getSetSlots e slotStr =
     take (defaultFlashGroupSlotsCount e) (map word_of_nat (parsedSlots (splitOn CHR '','' slotStr)))
   \<and> map unat (getSetSlots e slotStr) =
     take (defaultFlashGroupSlotsCount e) (parsedSlots (splitOn CHR '','' slotStr))
   \<and> length (getSetSlots e slotStr) \<le> defaultFlashGroupSlotsCount e
   \<and> (\<forall>tok v. ParseUint tok 32 = Inr v \<and> CHR '','' \<notin> set tok \<and>
         2 \<le> defaultFlashGroupSlotsCount e \<longrightarrow>
         getSetSlots e (tok @ '','' @ tok) = [word_of_nat v, word_of_nat v])"
proof -
  have eq: "getSetSlots e s =
      take (defaultFlashGroupSlotsCount e) (map word_of_nat (parsedSlots (splitOn CHR '','' s)))"
    for s
    by (cases s) (simp_all add: getSetSlots_def slotsLoop_take ParseUint_def)
  have "map unat (map (word_of_nat :: nat \<Rightarrow> 32 word) xs) = xs" if "\<forall>x \<in> set xs. x < 2 ^ 32"
    for xs :: "nat list"
    using that by (induction xs) (simp_all add: unat_slot)
  then have "map unat (map (word_of_nat :: nat \<Rightarrow> 32 word) (parsedSlots arr)) = parsedSlots arr"
    for arr
    using parsedSlots_bound by blast
  then have un: "map unat (getSetSlots e slotStr) =
      take (defaultFlashGroupSlotsCount e) (parsedSlots (splitOn CHR '','' slotStr))"
    unfolding eq by (simp add: take_map [symmetric] del: take_map)
  have len: "length (getSetSlots e slotStr) \<le> defaultFlashGroupSlotsCount e"
    unfolding eq by simp
  have dup: "getSetSlots e (tok @ '','' @ tok) = [word_of_nat v, word_of_nat v]"
    if "ParseUint tok 32 = Inr v" "CHR '','' \<notin> set tok" "2 \<le> defaultFlashGroupSlotsCount e"
    for tok v
  proof -
    have "splitOn CHR '','' (tok @ '','' @ tok) = [tok, tok]"
      using splitOn_notin [OF that(2), of tok] splitOn_single [OF that(2)] by simp
    then show ?thesis unfolding eq using that(1,3) by simp
  qed
  from eq [of slotStr] un len dup show ?thesis by blast
qed

theorem getSetSlots_skips_caps_keeps_duplicates_witness:
  "getSetSlots (exEnv True) ''5,x,5,4294967296,,7'' = [5, 5, 7]
   \<and> getSetSlots ((exEnv True)\<lparr>defaultFlashGroupSlotsCount := 2\<rparr>) ''5,x,5,4294967296,,7'' = [5, 5]
   \<and> getSetSlots (exEnv True) ''4294967295,4294967295'' = [4294967295, 4294967295]"
proof -
  have p: "ParseUint ''4294967295'' 32 = Inr 4294967295 \<and> CHR '','' \<notin> set ''4294967295'' \<and>
      2 \<le> defaultFlashGroupSlotsCount (exEnv True)"
    by (simp add: ParseUint_def isDigit_def digitVal_def ex_defs)
  have s: "parsedSlots (splitOn CHR '','' ''5,x,5,4294967296,,7'') = [5, 5, 7]"
    by (simp add: ParseUint_def isDigit_def digitVal_def)
  note a = getSetSlots_skips_caps_keeps_duplicates [of "exEnv True" "''5,x,5,4294967296,,7''",
      THEN conjunct1]
  note b = getSetSlots_skips_caps_keeps_duplicates
      [of "(exEnv True)\<lparr>defaultFlashGroupSlotsCount := 2\<rparr>" "''5,x,5,4294967296,,7''",
      THEN conjunct1]
  note d = getSetSlots_skips_caps_keeps_duplicates [of "exEnv True" "[]",
      THEN conjunct2, THEN conjunct2, THEN conjunct2, rule_format, OF p]
  have a': "getSetSlots (exEnv True) ''5,x,5,4294967296,,7'' = [5, 5, 7]"
    unfolding a s by (simp add: ex_defs)
  have b': "getSetSlots ((exEnv True)\<lparr>defaultFlashGroupSlotsCount := 2\<rparr>) ''5,x,5,4294967296,,7'' =
      [5, 5]"
    unfolding b s by simp
  show ?thesis using a' b' d by simp
qed

end
